theory Spec2Isabelle
  imports Complex_Main "HOL-Library.Sublist"
begin

section \<open>Sprout analytics to spreadsheet synchronisation: a model of the pipeline\<close>

text \<open>
  The definitions follow the monthly group-analytics script (the second module of
  \<^verbatim>\<open>src/utils/env-config.js\<close>) and the five platform modules
  (\<^verbatim>\<open>src/platforms/twitter.js\<close>, \<^verbatim>\<open>src/platforms/linkedin.js\<close> with the Instagram
  module behind it, \<^verbatim>\<open>src/unnamed/part_004\<close> for YouTube and \<^verbatim>\<open>src/unnamed/part_005\<close>
  for Facebook). Calls into \<^verbatim>\<open>utils/api\<close>, \<^verbatim>\<open>utils/sheets\<close>, \<^verbatim>\<open>utils/drive\<close> and
  \<^verbatim>\<open>utils/groups\<close> appear as parameters that carry the outcome of the call.
\<close>

subsection \<open>JavaScript values that the pipeline handles\<close>

text \<open>
  A call either returns or throws an \<^verbatim>\<open>Error\<close> with a message.
\<close>

datatype 'a outcome = Throws string | Returns 'a

text \<open>
  Profile identifiers arrive as JSON numbers or JSON strings; an absent property reads
  as \<^verbatim>\<open>undefined\<close>.
\<close>

datatype jsval = JUndefined | JNum int | JStr string

subsection \<open>Numbers rendered as decimal text\<close>

text \<open>
  Template literals and \<^verbatim>\<open>String(n)\<close> print an integer in decimal, a negative one with a
  leading minus sign.
\<close>

definition digit_char :: "nat \<Rightarrow> char" where
  "digit_char n = ''0123456789'' ! n"

fun show_nat :: "nat \<Rightarrow> string" where
  "show_nat n =
     (if n < 10 then [digit_char n] else show_nat (n div 10) @ [digit_char (n mod 10)])"

declare show_nat.simps [simp del]

definition show_int :: "int \<Rightarrow> string" where
  "show_int i = (if i < 0 then CHR ''-'' # show_nat (nat (- i)) else show_nat (nat i))"

text \<open>\<^verbatim>\<open>s.padStart(2, "0")\<close>.\<close>

definition padStart2 :: "string \<Rightarrow> string" where
  "padStart2 s = replicate (2 - length s) (CHR ''0'') @ s"

subsection \<open>Network-type mapping (\<^verbatim>\<open>processGroupAnalytics\<close>, lines 1030 to 1047)\<close>

datatype platform = Instagram | Youtube | Linkedin | Facebook | Twitter

definition networkTypeMapping :: "(string \<times> string) list" where
  "networkTypeMapping =
     [(''linkedin_company'', ''linkedin''),
      (''fb_instagram_account'', ''instagram''),
      (''fb_page'', ''facebook''),
      (''youtube_channel'', ''youtube''),
      (''twitter_profile'', ''twitter'')]"

text \<open>
  \<^verbatim>\<open>networkTypeMapping\<close> and \<^verbatim>\<open>networkModules\<close> are object literals, so a property
  read that misses the literal's own keys continues on \<^verbatim>\<open>Object.prototype\<close>. These are
  the names found there; the value read is a function (or the prototype object itself),
  which is truthy and is not a string.
\<close>

definition object_prototype_names :: "string list" where
  "object_prototype_names =
     [''constructor'', ''hasOwnProperty'', ''isPrototypeOf'', ''propertyIsEnumerable'',
      ''toLocaleString'', ''toString'', ''valueOf'', ''__proto__'',
      ''__defineGetter__'', ''__defineSetter__'', ''__lookupGetter__'', ''__lookupSetter__'']"

definition lower_char :: "char \<Rightarrow> char" where
  "lower_char c =
     (case map_of (zip ''ABCDEFGHIJKLMNOPQRSTUVWXYZ'' ''abcdefghijklmnopqrstuvwxyz'') c of
        Some l \<Rightarrow> l
      | None \<Rightarrow> c)"

text \<open>\<^verbatim>\<open>String.prototype.toLowerCase\<close> on the ASCII range.\<close>

definition toLowerCase :: "string \<Rightarrow> string" where
  "toLowerCase s = map lower_char s"

text \<open>
  The value bound to \<^verbatim>\<open>networkType\<close>: a string, or the inherited member that the
  lookup returned.
\<close>

datatype network_key = Key string | Inherited string

text \<open>
  \<^verbatim>\<open>networkTypeMapping[profile.network_type] || profile.network_type.toLowerCase()\<close>.
  Every value of the table is a non-empty string, hence truthy.
\<close>

definition networkType :: "string \<Rightarrow> network_key" where
  "networkType raw =
     (case map_of networkTypeMapping raw of
        Some simplified \<Rightarrow> Key simplified
      | None \<Rightarrow>
          if raw \<in> set object_prototype_names then Inherited raw
          else Key (toLowerCase raw))"

text \<open>
  \<^verbatim>\<open>networkModules[networkType]\<close> followed by the test
  \<^verbatim>\<open>module && module.formatAnalyticsData\<close>: an inherited member has no formatter.
\<close>

definition networkModules :: "(string \<times> platform) list" where
  "networkModules =
     [(''instagram'', Instagram), (''youtube'', Youtube), (''linkedin'', Linkedin),
      (''facebook'', Facebook), (''twitter'', Twitter)]"

definition formatter_of :: "network_key \<Rightarrow> platform option" where
  "formatter_of k = (case k of Key s \<Rightarrow> map_of networkModules s | Inherited _ \<Rightarrow> None)"

definition dispatch :: "string \<Rightarrow> platform option" where
  "dispatch raw = formatter_of (networkType raw)"

text \<open>\<^verbatim>\<open>INSTAGRAM_NETWORK_TYPES.includes(networkType)\<close> of the Instagram module.\<close>

definition INSTAGRAM_NETWORK_TYPES :: "string list" where
  "INSTAGRAM_NETWORK_TYPES = [''instagram'', ''fb_instagram_account'']"

definition isInstagramType :: "string \<Rightarrow> bool" where
  "isInstagramType t = (t \<in> set INSTAGRAM_NETWORK_TYPES)"

subsection \<open>Month windows (\<^verbatim>\<open>getMonthDateRange\<close>, lines 318 to 339; \<^verbatim>\<open>main\<close>, lines 1404 to 1415)\<close>

text \<open>
  A \<^verbatim>\<open>Date\<close> is read and built through its local-time fields only, so it is modelled
  by them: the year, the month index from 0 to 11, the day of the month and the
  milliseconds since local midnight.
\<close>

record jsdate =
  getFullYear :: int
  getMonth :: nat
  getDate :: nat
  msOfDay :: nat

definition isLeapYear :: "int \<Rightarrow> bool" where
  "isLeapYear y = (y mod 4 = 0 \<and> (y mod 100 \<noteq> 0 \<or> y mod 400 = 0))"

definition daysInMonth :: "int \<Rightarrow> nat \<Rightarrow> nat" where
  "daysInMonth y m =
     (if m = 1 then (if isLeapYear y then 29 else 28)
      else if m \<in> {3, 5, 8, 10} then 30 else 31)"

text \<open>
  \<^verbatim>\<open>new Date(y, m, 1)\<close>: a month index past 11 carries into the year.
\<close>

definition newDate1 :: "int \<Rightarrow> nat \<Rightarrow> jsdate" where
  "newDate1 y m =
     \<lparr>getFullYear = y + int (m div 12), getMonth = m mod 12, getDate = 1, msOfDay = 0\<rparr>"

text \<open>
  \<^verbatim>\<open>new Date(y, m, 0)\<close>: day 0 is the day before the first of month \<open>m\<close>, that is the last
  day of the month before.
\<close>

definition newDate0 :: "int \<Rightarrow> nat \<Rightarrow> jsdate" where
  "newDate0 y m =
     (let f = newDate1 y m in
      if getMonth f = 0
      then \<lparr>getFullYear = getFullYear f - 1, getMonth = 11, getDate = 31, msOfDay = 0\<rparr>
      else \<lparr>getFullYear = getFullYear f, getMonth = getMonth f - 1,
            getDate = daysInMonth (getFullYear f) (getMonth f - 1), msOfDay = 0\<rparr>)"

text \<open>
  \<^verbatim>\<open>d.setMonth(m)\<close> for \<open>m \<ge> 0\<close>: the month carries into the year, and a day of the
  month that the target month does not have runs over into the month after.
\<close>

definition setMonth :: "jsdate \<Rightarrow> nat \<Rightarrow> jsdate" where
  "setMonth d m =
     (let y = getFullYear d + int (m div 12); mn = m mod 12; len = daysInMonth y mn in
      if getDate d \<le> len then d\<lparr>getFullYear := y, getMonth := mn\<rparr>
      else d\<lparr>getFullYear := y + int ((mn + 1) div 12), getMonth := (mn + 1) mod 12,
             getDate := getDate d - len\<rparr>)"

text \<open>
  \<^verbatim>\<open>a <= b\<close> on two dates compares their time values; on the local fields that is the
  order of (months since year 0, day of the month, time of day).
\<close>

definition monthIndex :: "jsdate \<Rightarrow> int" where
  "monthIndex d = 12 * getFullYear d + int (getMonth d)"

definition date_le :: "jsdate \<Rightarrow> jsdate \<Rightarrow> bool" where
  "date_le a b =
     (monthIndex a < monthIndex b
      \<or> (monthIndex a = monthIndex b
          \<and> (getDate a < getDate b \<or> (getDate a = getDate b \<and> msOfDay a \<le> msOfDay b))))"

text \<open>
  The loop of \<^verbatim>\<open>main\<close>:
  \<^verbatim>\<open>while (currentMonth <= currentDate) { push(new Date(currentMonth)); currentMonth.setMonth(currentMonth.getMonth() + 1) }\<close>.
\<close>

function monthsFrom :: "jsdate \<Rightarrow> jsdate \<Rightarrow> jsdate list" where
  "monthsFrom currentMonth currentDate =
     (if date_le currentMonth currentDate
      then currentMonth # monthsFrom (setMonth currentMonth (getMonth currentMonth + 1)) currentDate
      else [])"
  by pat_completeness auto
termination
proof (relation "measure (\<lambda>(c, n). nat (monthIndex n + 1 - monthIndex c))")
  show "wf (measure (\<lambda>(c, n). nat (monthIndex n + 1 - monthIndex c)))" by simp
next
  fix currentMonth currentDate :: jsdate
  assume le: "date_le currentMonth currentDate"
  have k: "12 * int (k div 12) + int (k mod 12) = int k" for k :: nat
    by (simp add: zdiv_int zmod_int)
  have "monthIndex currentMonth < monthIndex (setMonth currentMonth (getMonth currentMonth + 1))"
    using k [of "getMonth currentMonth + 1"] k [of "(getMonth currentMonth + 1) mod 12 + 1"]
    by (auto simp: monthIndex_def setMonth_def Let_def)
  with le show "((setMonth currentMonth (getMonth currentMonth + 1), currentDate),
                 currentMonth, currentDate)
                \<in> measure (\<lambda>(c, n). nat (monthIndex n + 1 - monthIndex c))"
    by (auto simp: date_le_def)
qed

declare monthsFrom.simps [simp del]

text \<open>\<^verbatim>\<open>const startDate = new Date(2024, 0, 1)\<close> of \<^verbatim>\<open>main\<close>.\<close>

definition main_startDate :: jsdate where
  "main_startDate = newDate1 2024 0"

definition monthsToProcess :: "jsdate \<Rightarrow> jsdate list" where
  "monthsToProcess currentDate = monthsFrom main_startDate currentDate"

text \<open>The inner \<^verbatim>\<open>formatDate\<close> of \<^verbatim>\<open>getMonthDateRange\<close>.\<close>

definition formatDate :: "jsdate \<Rightarrow> string" where
  "formatDate d =
     show_int (getFullYear d) @ ''-'' @ padStart2 (show_nat (getMonth d + 1)) @ ''-''
       @ padStart2 (show_nat (getDate d))"

text \<open>
  The result of \<^verbatim>\<open>getMonthDateRange\<close> without \<^verbatim>\<open>monthName\<close>, which depends on the locale
  of the host and only feeds log lines and the report description.
\<close>

record month_range =
  startDate :: string
  endDate :: string
  year :: int

definition getMonthDateRange :: "jsdate \<Rightarrow> month_range" where
  "getMonthDateRange date =
     (let firstDay = newDate1 (getFullYear date) (getMonth date);
          lastDay = newDate0 (getFullYear date) (getMonth date + 1)
      in \<lparr>startDate = formatDate firstDay, endDate = formatDate lastDay,
          year = getFullYear firstDay\<rparr>)"

text \<open>
  The windows of one run: \<^verbatim>\<open>processMonthAnalytics\<close> calls \<^verbatim>\<open>getMonthDateRange\<close> on each
  element of \<^verbatim>\<open>monthsToProcess\<close>, in order.
\<close>

definition month_windows :: "jsdate \<Rightarrow> month_range list" where
  "month_windows currentDate = map getMonthDateRange (monthsToProcess currentDate)"

text \<open>
  The specification's calendar month, for comparison: month \<open>k\<close> counted from year 0
  (\<open>k = 12 \<times> year + month index\<close>) runs from its first day through its last day, and
  the day after a date is the next day of the same month or the first of the next.
\<close>

definition first_of_month :: "int \<Rightarrow> jsdate" where
  "first_of_month k =
     \<lparr>getFullYear = k div 12, getMonth = nat (k mod 12), getDate = 1, msOfDay = 0\<rparr>"

definition last_of_month :: "int \<Rightarrow> jsdate" where
  "last_of_month k =
     \<lparr>getFullYear = k div 12, getMonth = nat (k mod 12),
      getDate = daysInMonth (k div 12) (nat (k mod 12)), msOfDay = 0\<rparr>"

definition calendar_month :: "int \<Rightarrow> string \<times> string" where
  "calendar_month k = (formatDate (first_of_month k), formatDate (last_of_month k))"

definition next_day :: "jsdate \<Rightarrow> jsdate" where
  "next_day d =
     (if getDate d < daysInMonth (getFullYear d) (getMonth d) then d\<lparr>getDate := getDate d + 1\<rparr>
      else if getMonth d < 11 then d\<lparr>getMonth := getMonth d + 1, getDate := 1\<rparr>
      else d\<lparr>getFullYear := getFullYear d + 1, getMonth := 0, getDate := 1\<rparr>)"

text \<open>15 March 2024, half past nine in the morning.\<close>

definition mid_march_2024 :: jsdate where
  "mid_march_2024 = \<lparr>getFullYear = 2024, getMonth = 2, getDate = 15, msOfDay = 34200000\<rparr>"

subsection \<open>Data points, profiles and JavaScript arithmetic\<close>

text \<open>
  A number is a finite value or \<^verbatim>\<open>NaN\<close>. Finite values are rationals; sums and
  differences are exact, which is what double arithmetic gives on the integer counters
  of the API (integers below \<open>2\<^sup>5\<^sup>3\<close> in magnitude).
  A metric value is a number or a composite JSON object.
\<close>

datatype jsnum = Fin rat | NaN

datatype mval = MNum rat | MObj

type_synonym metric_map = "string \<Rightarrow> mval option"

record profile =
  network_type :: string
  name :: string
  network_id :: string
  customer_profile_id :: jsval
  profile_id :: jsval

record dims =
  reporting_period_by_day :: "string option"
  reporting_period :: "string option"
  dim_customer_profile_id :: jsval

record datapoint =
  dimensions :: "dims option"
  metrics :: "metric_map option"

text \<open>
  Three functions come from outside the files at hand: \<^verbatim>\<open>safeNumber\<close> of \<^verbatim>\<open>utils/api\<close>,
  which turns a metric value (or \<^verbatim>\<open>undefined\<close>) into a number; the built-in
  \<^verbatim>\<open>new Date(s).toISOString().split("T")[0]\<close>, which yields the UTC day of a date string
  and throws a \<^verbatim>\<open>RangeError\<close> on a string that is no date (\<open>None\<close> here); and the
  rounding of the rates. A rate is computed in double arithmetic and rounded by
  \<^verbatim>\<open>toFixed\<close>, whose result depends on the binary expansion of the double:
  \<^verbatim>\<open>((23 / 160) * 100).toFixed(2)\<close> is \<^verbatim>\<open>14.37\<close>, not \<^verbatim>\<open>14.38\<close>. Division and multiplication
  being correctly rounded and the operands exact, the number that \<^verbatim>\<open>parseFloat\<close> reads back from \<^verbatim>\<open>x.toFixed(n)\<close>
  is a function of the exact value of the expression \<^verbatim>\<open>x\<close>; \<open>toFixed rt n\<close> is that
  function, and nothing is assumed of it.
\<close>

record runtime =
  safeNumber :: "mval option \<Rightarrow> jsnum"
  isoDay :: "string \<Rightarrow> string option"
  toFixed :: "nat \<Rightarrow> rat \<Rightarrow> rat"

text \<open>\<^verbatim>\<open>v || 0\<close> on a metric read: \<^verbatim>\<open>undefined\<close> and \<^verbatim>\<open>0\<close> are falsy.\<close>

definition or0 :: "mval option \<Rightarrow> mval" where
  "or0 v = (case v of None \<Rightarrow> MNum 0 | Some (MNum r) \<Rightarrow> MNum r | Some MObj \<Rightarrow> MObj)"

text \<open>
  \<^verbatim>\<open>parseFloat\<close> and the implicit \<^verbatim>\<open>ToNumber\<close> agree on these values: a number is
  itself, an object prints as \<^verbatim>\<open>[object Object]\<close> and reads as \<^verbatim>\<open>NaN\<close>.
\<close>

definition parseFloat :: "mval \<Rightarrow> jsnum" where
  "parseFloat v = (case v of MNum r \<Rightarrow> Fin r | MObj \<Rightarrow> NaN)"

definition toNumber :: "mval \<Rightarrow> jsnum" where
  "toNumber v = (case v of MNum r \<Rightarrow> Fin r | MObj \<Rightarrow> NaN)"

definition jadd :: "jsnum \<Rightarrow> jsnum \<Rightarrow> jsnum" where
  "jadd a b = (case (a, b) of (Fin x, Fin y) \<Rightarrow> Fin (x + y) | _ \<Rightarrow> NaN)"

definition jsub :: "jsnum \<Rightarrow> jsnum \<Rightarrow> jsnum" where
  "jsub a b = (case (a, b) of (Fin x, Fin y) \<Rightarrow> Fin (x - y) | _ \<Rightarrow> NaN)"

text \<open>\<^verbatim>\<open>a > 0\<close>: false on \<^verbatim>\<open>NaN\<close>.\<close>

definition gt0 :: "jsnum \<Rightarrow> bool" where
  "gt0 a = (case a of Fin x \<Rightarrow> 0 < x | NaN \<Rightarrow> False)"

text \<open>
  \<^verbatim>\<open>parseFloat(((a / b) * 100).toFixed(2))\<close>. Every call sits under the guard \<^verbatim>\<open>b > 0\<close>,
  so the divisor is a positive number there.
\<close>

definition percent2 :: "runtime \<Rightarrow> jsnum \<Rightarrow> jsnum \<Rightarrow> jsnum" where
  "percent2 rt a b =
     (case (a, b) of
        (Fin x, Fin y) \<Rightarrow> if y = 0 then NaN else Fin (toFixed rt 2 (x / y * 100))
      | _ \<Rightarrow> NaN)"

text \<open>\<^verbatim>\<open>parseFloat((a / b).toFixed(4))\<close>, under the guard \<^verbatim>\<open>b > 0\<close> as well.\<close>

definition ratio4 :: "runtime \<Rightarrow> jsnum \<Rightarrow> jsnum \<Rightarrow> jsnum" where
  "ratio4 rt a b =
     (case (a, b) of
        (Fin x, Fin y) \<Rightarrow> if y = 0 then NaN else Fin (toFixed rt 4 (x / y))
      | _ \<Rightarrow> NaN)"

text \<open>Truthiness of an identifier value.\<close>

definition truthy :: "jsval \<Rightarrow> bool" where
  "truthy v = (case v of JUndefined \<Rightarrow> False | JNum n \<Rightarrow> n \<noteq> 0 | JStr s \<Rightarrow> s \<noteq> [])"

text \<open>
  \<^verbatim>\<open>dimensions && (dimensions["reporting_period.by(day)"] || dimensions.reporting_period)\<close>
  followed by the test \<^verbatim>\<open>!reportingPeriod\<close>: the result is a non-empty string or nothing.
\<close>

definition reportingPeriod :: "datapoint \<Rightarrow> string option" where
  "reportingPeriod dp =
     (case dimensions dp of
        None \<Rightarrow> None
      | Some d \<Rightarrow>
          (let chosen =
                 (case reporting_period_by_day d of
                    Some s \<Rightarrow> if s \<noteq> [] then Some s else reporting_period d
                  | None \<Rightarrow> reporting_period d)
           in case chosen of Some s \<Rightarrow> if s \<noteq> [] then Some s else None | None \<Rightarrow> None))"

text \<open>The cells of a row: text, numbers, raw metric values and identifiers.\<close>

datatype cell = CStr string | CNum jsnum | CMetric mval | CId jsval

text \<open>The cells \<^verbatim>\<open>safeNumber(metrics[k])\<close> for a run of keys.\<close>

definition safe_cells :: "runtime \<Rightarrow> metric_map \<Rightarrow> string list \<Rightarrow> cell list" where
  "safe_cells rt m ks = map (\<lambda>k. CNum (safeNumber rt (m k))) ks"


subsection \<open>Twitter (\<^verbatim>\<open>src/platforms/twitter.js\<close>)\<close>


definition tw_engagements :: "metric_map \<Rightarrow> jsnum" where
  "tw_engagements m =
     jadd (jadd (jadd (jadd (jadd
       (parseFloat (or0 (m ''likes'')))
       (parseFloat (or0 (m ''comments_count''))))
       (parseFloat (or0 (m ''shares_count''))))
       (parseFloat (or0 (m ''post_link_clicks''))))
       (parseFloat (or0 (m ''post_content_clicks_other''))))
       (parseFloat (or0 (m ''engagements_other'')))"

definition tw_engagementRatePerFollower :: "runtime \<Rightarrow> metric_map \<Rightarrow> jsnum" where
  "tw_engagementRatePerFollower rt m =
     (let followers = or0 (m ''lifetime_snapshot.followers_count'') in
      if gt0 (toNumber followers) then percent2 rt (tw_engagements m) (toNumber followers)
      else Fin 0)"

definition tw_engagementRatePerImpression :: "runtime \<Rightarrow> metric_map \<Rightarrow> jsnum" where
  "tw_engagementRatePerImpression rt m =
     (let impressions = or0 (m ''impressions'') in
      if gt0 (toNumber impressions) then percent2 rt (tw_engagements m) (toNumber impressions)
      else Fin 0)"

definition tw_clickThroughRate :: "runtime \<Rightarrow> metric_map \<Rightarrow> jsnum" where
  "tw_clickThroughRate rt m =
     (let impressions = or0 (m ''impressions''); postLinkClicks = or0 (m ''post_link_clicks'') in
      if gt0 (toNumber impressions)
      then percent2 rt (toNumber postLinkClicks) (toNumber impressions)
      else Fin 0)"

text \<open>
  The identity cells of the Twitter and Facebook rows: a missing profile gives empty
  strings, and the profile id is read off the data point (\<^verbatim>\<open>customer_profile_id || ""\<close>).
\<close>

definition identity_cells :: "string \<Rightarrow> dims \<Rightarrow> profile option \<Rightarrow> cell list" where
  "identity_cells date d profileData =
     [CStr date,
      CStr (case profileData of Some p \<Rightarrow> network_type p | None \<Rightarrow> []),
      CStr (case profileData of Some p \<Rightarrow> name p | None \<Rightarrow> []),
      CStr (case profileData of Some p \<Rightarrow> network_id p | None \<Rightarrow> []),
      (if truthy (dim_customer_profile_id d) then CId (dim_customer_profile_id d) else CStr [])]"

definition twitter_formatAnalyticsData ::
  "runtime \<Rightarrow> datapoint \<Rightarrow> profile option \<Rightarrow> cell list option" where
  "twitter_formatAnalyticsData rt dataPoint profileData =
     (case metrics dataPoint of
        None \<Rightarrow> None
      | Some m \<Rightarrow>
          (case reportingPeriod dataPoint of
             None \<Rightarrow> None
           | Some rp \<Rightarrow>
               (case isoDay rt rp of
                  None \<Rightarrow> None
                | Some date \<Rightarrow>
                    (case dimensions dataPoint of
                       None \<Rightarrow> None
                     | Some d \<Rightarrow>
                         Some (identity_cells date d profileData
                           @ safe_cells rt m
                               [''lifetime_snapshot.followers_count'', ''net_follower_growth'',
                                ''impressions'', ''post_media_views'', ''video_views'',
                                ''reactions'', ''likes'', ''comments_count'', ''shares_count'',
                                ''post_content_clicks'', ''post_link_clicks'',
                                ''post_content_clicks_other'', ''post_media_clicks'',
                                ''post_hashtag_clicks'', ''post_detail_expand_clicks'',
                                ''post_profile_clicks'', ''engagements_other'',
                                ''post_app_engagements'', ''post_app_installs'',
                                ''post_app_opens'', ''posts_sent_count'',
                                ''posts_sent_by_post_type'', ''posts_sent_by_content_type'']
                           @ [CNum (tw_engagements m),
                              CNum (tw_engagementRatePerImpression rt m),
                              CNum (tw_engagementRatePerFollower rt m),
                              CNum (tw_clickThroughRate rt m)])))))"

subsection \<open>Facebook (\<^verbatim>\<open>src/unnamed/part_005\<close>)\<close>


definition fb_engagements :: "metric_map \<Rightarrow> jsnum" where
  "fb_engagements m =
     jadd (jadd (jadd (jadd
       (parseFloat (or0 (m ''reactions'')))
       (parseFloat (or0 (m ''comments_count''))))
       (parseFloat (or0 (m ''shares_count''))))
       (parseFloat (or0 (m ''post_link_clicks''))))
       (parseFloat (or0 (m ''post_content_clicks_other'')))"

definition fb_engagementRatePerFollower :: "runtime \<Rightarrow> metric_map \<Rightarrow> jsnum" where
  "fb_engagementRatePerFollower rt m =
     (let followers = or0 (m ''lifetime_snapshot.followers_count'') in
      if gt0 (toNumber followers) then percent2 rt (fb_engagements m) (toNumber followers)
      else Fin 0)"

definition fb_engagementRatePerImpression :: "runtime \<Rightarrow> metric_map \<Rightarrow> jsnum" where
  "fb_engagementRatePerImpression rt m =
     (let impressions = or0 (m ''impressions'') in
      if gt0 (toNumber impressions) then percent2 rt (fb_engagements m) (toNumber impressions)
      else Fin 0)"

definition fb_clickThroughRate :: "runtime \<Rightarrow> metric_map \<Rightarrow> jsnum" where
  "fb_clickThroughRate rt m =
     (let impressions = or0 (m ''impressions''); postLinkClicks = or0 (m ''post_link_clicks'') in
      if gt0 (toNumber impressions)
      then percent2 rt (toNumber postLinkClicks) (toNumber impressions)
      else Fin 0)"

text \<open>
  The Facebook formatter has no test of \<^verbatim>\<open>dataPoint.metrics\<close>: without a metrics block the
  first read \<^verbatim>\<open>metrics[...]\<close> throws, after the reporting period has been checked and the
  date computed, and the \<^verbatim>\<open>catch\<close> returns \<^verbatim>\<open>null\<close>.
\<close>

definition facebook_formatAnalyticsData ::
  "runtime \<Rightarrow> datapoint \<Rightarrow> profile option \<Rightarrow> cell list option" where
  "facebook_formatAnalyticsData rt dataPoint profileData =
     (case reportingPeriod dataPoint of
        None \<Rightarrow> None
      | Some rp \<Rightarrow>
          (case isoDay rt rp of
             None \<Rightarrow> None
           | Some date \<Rightarrow>
               (case metrics dataPoint of
                  None \<Rightarrow> None
                | Some m \<Rightarrow>
                    (case dimensions dataPoint of
                       None \<Rightarrow> None
                     | Some d \<Rightarrow>
                         Some (identity_cells date d profileData
                           @ safe_cells rt m
                               [''lifetime_snapshot.followers_count'', ''net_follower_growth'',
                                ''followers_gained'', ''followers_gained_organic'',
                                ''followers_gained_paid'', ''followers_lost'',
                                ''lifetime_snapshot.fans_count'', ''fans_gained'',
                                ''fans_gained_organic'', ''fans_gained_paid'', ''fans_lost'',
                                ''impressions'', ''impressions_organic'', ''impressions_viral'',
                                ''impressions_nonviral'', ''impressions_paid'', ''tab_views'',
                                ''tab_views_login'', ''tab_views_logout'', ''post_impressions'',
                                ''post_impressions_organic'', ''post_impressions_viral'',
                                ''post_impressions_nonviral'', ''post_impressions_paid'',
                                ''impressions_unique'', ''impressions_organic_unique'',
                                ''impressions_viral_unique'', ''impressions_nonviral_unique'',
                                ''impressions_paid_unique'', ''reactions'', ''comments_count'',
                                ''shares_count'', ''post_link_clicks'',
                                ''post_content_clicks_other'', ''profile_actions'',
                                ''post_engagements'', ''video_views'', ''video_views_organic'',
                                ''video_views_paid'', ''video_views_autoplay'',
                                ''video_views_click_to_play'', ''video_views_repeat'',
                                ''video_view_time'', ''video_views_unique'', ''posts_sent_count'',
                                ''posts_sent_by_post_type'', ''posts_sent_by_content_type'']
                           @ [CNum (fb_engagements m),
                              CNum (fb_engagementRatePerImpression rt m),
                              CNum (fb_engagementRatePerFollower rt m),
                              CNum (fb_clickThroughRate rt m)])))))"

subsection \<open>LinkedIn (\<^verbatim>\<open>src/platforms/linkedin.js\<close>, first module)\<close>


definition li_engagements :: "metric_map \<Rightarrow> jsnum" where
  "li_engagements m =
     jadd (jadd (jadd (jadd
       (parseFloat (or0 (m ''reactions'')))
       (parseFloat (or0 (m ''comments_count''))))
       (parseFloat (or0 (m ''shares_count''))))
       (parseFloat (or0 (m ''post_link_clicks''))))
       (parseFloat (or0 (m ''post_content_clicks'')))"

definition li_engagementRatePerImpression :: "runtime \<Rightarrow> metric_map \<Rightarrow> jsnum" where
  "li_engagementRatePerImpression rt m =
     (let impressions = parseFloat (or0 (m ''impressions'')) in
      if gt0 impressions then percent2 rt (li_engagements m) impressions else Fin 0)"

definition li_engagementRatePerFollower :: "runtime \<Rightarrow> metric_map \<Rightarrow> jsnum" where
  "li_engagementRatePerFollower rt m =
     (let followersCount = parseFloat (or0 (m ''lifetime_snapshot.followers_count'')) in
      if gt0 followersCount then percent2 rt (li_engagements m) followersCount else Fin 0)"

definition li_clickThroughRate :: "runtime \<Rightarrow> metric_map \<Rightarrow> jsnum" where
  "li_clickThroughRate rt m =
     (let impressions = parseFloat (or0 (m ''impressions'')) in
      if gt0 impressions
      then percent2 rt
             (jadd (parseFloat (or0 (m ''post_link_clicks'')))
                   (parseFloat (or0 (m ''post_content_clicks''))))
             impressions
      else Fin 0)"

text \<open>
  The LinkedIn, Instagram and YouTube formatters read \<^verbatim>\<open>profileData.network_type\<close>
  without a test: a missing profile throws, and the \<^verbatim>\<open>catch\<close> returns \<^verbatim>\<open>null\<close>.
\<close>

definition linkedin_formatAnalyticsData ::
  "runtime \<Rightarrow> datapoint \<Rightarrow> profile option \<Rightarrow> cell list option" where
  "linkedin_formatAnalyticsData rt dataPoint profileData =
     (case metrics dataPoint of
        None \<Rightarrow> None
      | Some m \<Rightarrow>
          (case reportingPeriod dataPoint of
             None \<Rightarrow> None
           | Some rp \<Rightarrow>
               (case isoDay rt rp of
                  None \<Rightarrow> None
                | Some date \<Rightarrow>
                    (case profileData of
                       None \<Rightarrow> None
                     | Some p \<Rightarrow>
                         Some ([CStr date, CStr (network_type p), CStr (name p),
                                CStr (network_id p), CId (customer_profile_id p)]
                           @ safe_cells rt m
                               [''net_follower_growth'', ''followers_gained'', ''followers_lost'',
                                ''impressions_organic'', ''impressions_paid'', ''reactions'',
                                ''comments_count'', ''shares_count'', ''post_link_clicks'',
                                ''post_content_clicks'', ''posts_sent_count'']
                           @ [CNum (jadd (safeNumber rt (m ''post_link_clicks''))
                                         (safeNumber rt (m ''post_content_clicks'')))]
                           @ safe_cells rt m
                               [''impressions'', ''lifetime_snapshot.followers_count'']
                           @ [CNum (li_engagements m),
                              CNum (li_engagementRatePerImpression rt m),
                              CNum (li_engagementRatePerFollower rt m),
                              CNum (li_clickThroughRate rt m)])))))"

subsection \<open>Instagram (\<^verbatim>\<open>src/platforms/linkedin.js\<close>, second module)\<close>


text \<open>\<^verbatim>\<open>metrics[a] !== undefined ? a : b\<close>.\<close>

definition defined_or :: "metric_map \<Rightarrow> string \<Rightarrow> string \<Rightarrow> string" where
  "defined_or m a b = (if m a \<noteq> None then a else b)"

definition ig_engagements :: "metric_map \<Rightarrow> jsnum" where
  "ig_engagements m =
     (let savesMetric = defined_or m ''post_saves'' ''saves'';
          likesMetric = defined_or m ''post_likes'' ''likes''
      in jadd (jadd (jadd (jadd
           (parseFloat (or0 (m likesMetric)))
           (parseFloat (or0 (m ''comments_count''))))
           (parseFloat (or0 (m ''shares_count''))))
           (parseFloat (or0 (m savesMetric))))
           (parseFloat (or0 (m ''story_replies''))))"

definition ig_engagementRatePerImpression :: "runtime \<Rightarrow> metric_map \<Rightarrow> jsnum" where
  "ig_engagementRatePerImpression rt m =
     (let impressions = parseFloat (or0 (m ''impressions'')) in
      if gt0 impressions then percent2 rt (ig_engagements m) impressions else Fin 0)"

definition ig_engagementRatePerFollower :: "runtime \<Rightarrow> metric_map \<Rightarrow> jsnum" where
  "ig_engagementRatePerFollower rt m =
     (let followersCount = parseFloat (or0 (m ''lifetime_snapshot.followers_count'')) in
      if gt0 followersCount then percent2 rt (ig_engagements m) followersCount else Fin 0)"

definition instagram_formatAnalyticsData ::
  "runtime \<Rightarrow> datapoint \<Rightarrow> profile option \<Rightarrow> cell list option" where
  "instagram_formatAnalyticsData rt dataPoint profileData =
     (case metrics dataPoint of
        None \<Rightarrow> None
      | Some m \<Rightarrow>
          (case profileData of
             None \<Rightarrow> None
           | Some p \<Rightarrow>
               (case reportingPeriod dataPoint of
                  None \<Rightarrow> None
                | Some rp \<Rightarrow>
                    (case isoDay rt rp of
                       None \<Rightarrow> None
                     | Some date \<Rightarrow>
                         Some ([CStr date, CStr (network_type p), CStr (name p),
                                CStr (network_id p), CId (customer_profile_id p)]
                           @ safe_cells rt m
                               [''impressions'', ''impressions_unique'', ''video_views'',
                                ''reactions'', defined_or m ''post_likes'' ''likes'',
                                ''comments_count'', defined_or m ''post_saves'' ''saves'',
                                ''shares_count'', ''story_replies'', ''posts_sent_count'',
                                ''net_follower_growth'', ''followers_gained'', ''followers_lost'',
                                defined_or m ''following_count''
                                  ''lifetime_snapshot.following_count'',
                                defined_or m ''post_views'' ''views'',
                                ''lifetime_snapshot.followers_count'', ''net_following_growth'']
                           @ [CNum (ig_engagements m),
                              CNum (ig_engagementRatePerImpression rt m),
                              CNum (ig_engagementRatePerFollower rt m)])))))"

subsection \<open>YouTube (\<^verbatim>\<open>src/unnamed/part_004\<close>)\<close>


definition yt_netFollowerGrowths :: "metric_map \<Rightarrow> jsnum" where
  "yt_netFollowerGrowths m =
     jsub (parseFloat (or0 (m ''followers_gained''))) (parseFloat (or0 (m ''followers_lost'')))"

definition yt_videoEngagements :: "metric_map \<Rightarrow> jsnum" where
  "yt_videoEngagements m =
     jadd (jadd (jadd (jadd (jadd (jadd
       (parseFloat (or0 (m ''comments_count'')))
       (parseFloat (or0 (m ''likes''))))
       (parseFloat (or0 (m ''dislikes''))))
       (parseFloat (or0 (m ''shares_count''))))
       (parseFloat (or0 (m ''followers_gained''))))
       (parseFloat (or0 (m ''annotation_clicks''))))
       (parseFloat (or0 (m ''card_clicks'')))"

definition yt_videoViews :: "metric_map \<Rightarrow> jsnum" where
  "yt_videoViews m = parseFloat (or0 (m ''video_views''))"

text \<open>Computed by the formatter and left out of the row.\<close>

definition yt_engagementsPerView :: "runtime \<Rightarrow> metric_map \<Rightarrow> jsnum" where
  "yt_engagementsPerView rt m =
     (if gt0 (yt_videoViews m) then ratio4 rt (yt_videoEngagements m) (yt_videoViews m) else Fin 0)"

definition youtube_formatAnalyticsData ::
  "runtime \<Rightarrow> datapoint \<Rightarrow> profile option \<Rightarrow> cell list option" where
  "youtube_formatAnalyticsData rt dataPoint profileData =
     (case metrics dataPoint of
        None \<Rightarrow> None
      | Some m \<Rightarrow>
          (case reportingPeriod dataPoint of
             None \<Rightarrow> None
           | Some rp \<Rightarrow>
               (case isoDay rt rp of
                  None \<Rightarrow> None
                | Some date \<Rightarrow>
                    (case profileData of
                       None \<Rightarrow> None
                     | Some p \<Rightarrow>
                         Some ([CStr date, CStr (network_type p), CStr (name p),
                                CStr (network_id p), CId (profile_id p),
                                CMetric (or0 (m ''lifetime_snapshot.followers_count'')),
                                CMetric (or0 (m ''net_follower_growth'')),
                                CMetric (or0 (m ''followers_gained'')),
                                CMetric (or0 (m ''followers_lost'')),
                                CMetric (or0 (m ''posts_sent_count'')),
                                CNum (yt_netFollowerGrowths m),
                                CNum (yt_videoEngagements m),
                                CNum (yt_videoViews m)])))))"

subsection \<open>The normalizer of a platform\<close>


definition formatAnalyticsData ::
  "platform \<Rightarrow> runtime \<Rightarrow> datapoint \<Rightarrow> profile option \<Rightarrow> cell list option" where
  "formatAnalyticsData pf =
     (case pf of
        Instagram \<Rightarrow> instagram_formatAnalyticsData
      | Youtube \<Rightarrow> youtube_formatAnalyticsData
      | Linkedin \<Rightarrow> linkedin_formatAnalyticsData
      | Facebook \<Rightarrow> facebook_formatAnalyticsData
      | Twitter \<Rightarrow> twitter_formatAnalyticsData)"



subsection \<open>Counters as the specification reads them, and sample inputs\<close>



text \<open>
  A runtime for the examples: \<^verbatim>\<open>safeNumber\<close> keeps a number and gives 0 otherwise, the
  day of a date string of ten or more characters is its first ten characters, and a rate
  is rounded to the nearest multiple of \<open>10\<^sup>-\<^sup>n\<close>, a tie going away from zero (no example
  computes a rate).
\<close>

definition round_half_away :: "nat \<Rightarrow> rat \<Rightarrow> rat" where
  "round_half_away n x =
     (if x < 0 then - (of_int (round (- x * 10 ^ n)) / 10 ^ n)
      else of_int (round (x * 10 ^ n)) / 10 ^ n)"

definition sample_runtime :: runtime where
  "sample_runtime =
     \<lparr>safeNumber = (\<lambda>v. case v of Some (MNum r) \<Rightarrow> Fin r | _ \<Rightarrow> Fin 0),
      isoDay = (\<lambda>s. if length s < 10 then None else Some (take 10 s)),
      toFixed = round_half_away\<rparr>"

definition sample_profile :: profile where
  "sample_profile =
     \<lparr>network_type = ''twitter_profile'', name = ''Acme'', network_id = ''acme'',
      customer_profile_id = JNum 123, profile_id = JNum 123\<rparr>"

definition sample_dims :: dims where
  "sample_dims =
     \<lparr>reporting_period_by_day = Some ''2024-01-15'', reporting_period = None,
      dim_customer_profile_id = JNum 123\<rparr>"

definition empty_metrics_datapoint :: datapoint where
  "empty_metrics_datapoint = \<lparr>dimensions = Some sample_dims, metrics = Some (\<lambda>k. None)\<rparr>"

definition twitter_example_metrics :: metric_map where
  "twitter_example_metrics =
     map_of [(''likes'', MNum 10), (''comments_count'', MNum 2), (''shares_count'', MNum 1),
             (''post_link_clicks'', MNum 3), (''post_content_clicks_other'', MNum 0)]"

definition twitter_example_datapoint :: datapoint where
  "twitter_example_datapoint =
     \<lparr>dimensions = Some sample_dims, metrics = Some twitter_example_metrics\<rparr>"

subsection \<open>Resolving the profile of a data point (\<^verbatim>\<open>processGroupAnalytics\<close>, lines 1019 to 1028)\<close>

text \<open>
  An identifier is \<^verbatim>\<open>undefined\<close>, a string or a number. The numbers of this model are
  integers, and \<open>JNum n\<close> stands for a value of the code when a double holds \<open>n\<close> exactly
  and prints it digit by digit, which is so within \<^verbatim>\<open>Number.MAX_SAFE_INTEGER\<close>; the
  statements about numeric identifiers carry this bound.
\<close>

definition MAX_SAFE_INTEGER :: int where
  "MAX_SAFE_INTEGER = 9007199254740991"

definition safe_integer :: "int \<Rightarrow> bool" where
  "safe_integer n = (- MAX_SAFE_INTEGER \<le> n \<and> n \<le> MAX_SAFE_INTEGER)"

text \<open>
  \<^verbatim>\<open>parseInt(s)\<close> without a radix: leading white space is skipped, a sign is read, a
  prefix \<^verbatim>\<open>0x\<close> selects base 16, and the longest run of digits is the value; no digit
  at all gives \<^verbatim>\<open>NaN\<close> (\<open>None\<close> here). The value is the exact integer. Beyond the safe
  integers the code has the nearest double instead, which is at least \<open>2\<^sup>5\<^sup>3\<close> in
  magnitude and so, like the exact integer, differs from every safe integer.
\<close>

definition is_space :: "char \<Rightarrow> bool" where
  "is_space c = (c \<in> set [CHR 0x09, CHR 0x0A, CHR 0x0B, CHR 0x0C, CHR 0x0D, CHR '' ''])"

definition digit_of :: "nat \<Rightarrow> char \<Rightarrow> nat option" where
  "digit_of radix c =
     (case map_of (zip ''0123456789abcdefABCDEF''
                       [0, 1, 2, 3, 4, 5, 6, 7, 8, 9, 10, 11, 12, 13, 14, 15,
                        10, 11, 12, 13, 14, 15]) c of
        Some v \<Rightarrow> if v < radix then Some v else None
      | None \<Rightarrow> None)"

definition digits_value :: "nat \<Rightarrow> string \<Rightarrow> nat option" where
  "digits_value radix s =
     (let ds = takeWhile (\<lambda>c. digit_of radix c \<noteq> None) s in
      if ds = [] then None
      else Some (foldl (\<lambda>acc c. acc * radix + the (digit_of radix c)) 0 ds))"

definition unsigned_value :: "string \<Rightarrow> nat option" where
  "unsigned_value s =
     (if take 2 s = ''0x'' \<or> take 2 s = ''0X'' then digits_value 16 (drop 2 s)
      else digits_value 10 s)"

definition parseInt_string :: "string \<Rightarrow> int option" where
  "parseInt_string s =
     (case dropWhile is_space s of
        [] \<Rightarrow> None
      | c # rest \<Rightarrow>
          if c = CHR ''-'' then map_option (\<lambda>n. - int n) (unsigned_value rest)
          else if c = CHR ''+'' then map_option int (unsigned_value rest)
          else map_option int (unsigned_value (c # rest)))"

text \<open>
  The argument of \<^verbatim>\<open>parseInt\<close> is first turned into a string, as is an identifier in a
  template literal. A safe integer prints as its decimal digits (the code prints an
  exponent from \<open>10\<^sup>2\<^sup>1\<close> on, far beyond the safe integers).
\<close>

definition js_string :: "jsval \<Rightarrow> string" where
  "js_string v = (case v of JUndefined \<Rightarrow> ''undefined'' | JNum n \<Rightarrow> show_int n | JStr s \<Rightarrow> s)"

definition parseInt :: "jsval \<Rightarrow> int option" where
  "parseInt v = parseInt_string (js_string v)"

text \<open>
  An identifier in its canonical spelling: a safe integer, as a number or as the string
  of its decimal digits.
\<close>

definition canonical_id :: "jsval \<Rightarrow> bool" where
  "canonical_id v =
     (case parseInt v of
        None \<Rightarrow> False
      | Some n \<Rightarrow> safe_integer n \<and> js_string v = show_int n)"

text \<open>
  \<^verbatim>\<open>a === parseInt(b)\<close>: strict equality holds only between two numbers of the same value,
  and \<^verbatim>\<open>NaN\<close> equals nothing.
\<close>

definition strict_eq_parsed :: "jsval \<Rightarrow> int option \<Rightarrow> bool" where
  "strict_eq_parsed a parsed =
     (case (a, parsed) of (JNum x, Some y) \<Rightarrow> x = y | _ \<Rightarrow> False)"

text \<open>
  \<^verbatim>\<open>profiles.find((p) => p.customer_profile_id === parseInt(profileId))\<close>.
\<close>

definition findProfile :: "profile list \<Rightarrow> jsval \<Rightarrow> profile option" where
  "findProfile profiles profileId =
     find (\<lambda>p. strict_eq_parsed (customer_profile_id p) (parseInt profileId)) profiles"

subsection \<open>Grouping by profile and date (\<^verbatim>\<open>processGroupAnalytics\<close>, lines 987 to 1008)\<close>

record entry =
  profileId :: jsval
  date :: string
  dataPoint :: datapoint

text \<open>\<^verbatim>\<open>dataPoint.dimensions?.customer_profile_id\<close>.\<close>

definition customerProfileId :: "datapoint \<Rightarrow> jsval" where
  "customerProfileId dp =
     (case dimensions dp of None \<Rightarrow> JUndefined | Some d \<Rightarrow> dim_customer_profile_id d)"

text \<open>
  What one pass of the loop body does with a data point: skip it (\<^verbatim>\<open>continue\<close>), throw
  on a reporting period that is no date, or arrive at a key and an entry.
\<close>

definition keyed :: "runtime \<Rightarrow> datapoint \<Rightarrow> (string \<times> entry) option outcome" where
  "keyed rt dp =
     (if \<not> truthy (customerProfileId dp) then Returns None
      else case reportingPeriod dp of
             None \<Rightarrow> Returns None
           | Some rp \<Rightarrow>
               (case isoDay rt rp of
                  None \<Rightarrow> Throws ''Invalid time value''
                | Some day \<Rightarrow>
                    Returns (Some (js_string (customerProfileId dp) @ ''_'' @ day,
                                   \<lparr>profileId = customerProfileId dp, date = day,
                                    dataPoint = dp\<rparr>))))"

text \<open>The key under which a data point is grouped, if the loop body reaches one.\<close>

definition key_of :: "runtime \<Rightarrow> datapoint \<Rightarrow> string option" where
  "key_of rt dp = (case keyed rt dp of Returns (Some (k, e)) \<Rightarrow> Some k | _ \<Rightarrow> None)"

text \<open>
  \<^verbatim>\<open>dataByProfileAndDate\<close> is an object literal filled in arrival order; its keys contain
  an underscore, so \<^verbatim>\<open>Object.values\<close> lists the entries in insertion order. The test
  \<^verbatim>\<open>!dataByProfileAndDate[key]\<close> also sees the members inherited from \<^verbatim>\<open>Object.prototype\<close>.
\<close>

definition has_key :: "(string \<times> entry) list \<Rightarrow> string \<Rightarrow> bool" where
  "has_key acc k = (k \<in> fst ` set acc \<or> k \<in> set object_prototype_names)"

fun groupDataPoints ::
  "runtime \<Rightarrow> datapoint list \<Rightarrow> (string \<times> entry) list \<Rightarrow> (string \<times> entry) list outcome" where
  "groupDataPoints rt [] acc = Returns acc"
| "groupDataPoints rt (dp # rest) acc =
     (case keyed rt dp of
        Throws e \<Rightarrow> Throws e
      | Returns None \<Rightarrow> groupDataPoints rt rest acc
      | Returns (Some (k, e)) \<Rightarrow>
          if has_key acc k then groupDataPoints rt rest acc
          else groupDataPoints rt rest (acc @ [(k, e)]))"

subsection \<open>Routing the groups to the normalizers (\<^verbatim>\<open>processGroupAnalytics\<close>, lines 1010 to 1061)\<close>

text \<open>
  One pass of the loop over \<^verbatim>\<open>Object.values(dataByProfileAndDate)\<close>: the platform whose
  array receives a row, and the row; nothing when no profile is found, when the network
  type has no formatter or when the formatter returns \<^verbatim>\<open>null\<close>.
\<close>

definition route_entry :: "runtime \<Rightarrow> profile list \<Rightarrow> entry \<Rightarrow> (platform \<times> cell list) option" where
  "route_entry rt profiles e =
     (case findProfile profiles (profileId e) of
        None \<Rightarrow> None
      | Some p \<Rightarrow>
          (case dispatch (network_type p) of
             None \<Rightarrow> None
           | Some pf \<Rightarrow>
               (case formatAnalyticsData pf rt (dataPoint e) (Some p) of
                  None \<Rightarrow> None
                | Some row \<Rightarrow> Some (pf, row))))"

text \<open>The rows in the order in which they are pushed, each with its platform.\<close>

definition route :: "runtime \<Rightarrow> profile list \<Rightarrow> (string \<times> entry) list \<Rightarrow> (platform \<times> cell list) list" where
  "route rt profiles groups = List.map_filter (\<lambda>(k, e). route_entry rt profiles e) groups"

text \<open>\<^verbatim>\<open>rowsByNetwork[networkType]\<close> after the loop.\<close>

definition rowsByNetwork :: "(platform \<times> cell list) list \<Rightarrow> platform \<Rightarrow> cell list list" where
  "rowsByNetwork routed pf = map snd (filter (\<lambda>(q, row). q = pf) routed)"

text \<open>
  The same pass with each row labelled by the key of its group, to state which groups
  produced a row.
\<close>

definition route_keyed ::
  "runtime \<Rightarrow> profile list \<Rightarrow> (string \<times> entry) list \<Rightarrow> (string \<times> platform \<times> cell list) list" where
  "route_keyed rt profiles groups =
     List.map_filter (\<lambda>(k, e). map_option (\<lambda>r. (k, r)) (route_entry rt profiles e)) groups"

text \<open>Sample inputs.\<close>

definition string_id_profile :: profile where
  "string_id_profile = sample_profile\<lparr>customer_profile_id := JStr ''123''\<rparr>"

definition sample_entry :: entry where
  "sample_entry =
     \<lparr>profileId = JNum 123, date = ''2024-01-15'', dataPoint = twitter_example_datapoint\<rparr>"

text \<open>
  A data point of the same profile and day as the Twitter example, whose identifier is
  the string \<^verbatim>\<open>"0123"\<close>, and the entry under which it is grouped.
\<close>

definition padded_id_datapoint :: datapoint where
  "padded_id_datapoint =
     \<lparr>dimensions = Some (sample_dims\<lparr>dim_customer_profile_id := JStr ''0123''\<rparr>),
      metrics = Some twitter_example_metrics\<rparr>"

definition padded_entry :: entry where
  "padded_entry =
     \<lparr>profileId = JStr ''0123'', date = ''2024-01-15'', dataPoint = padded_id_datapoint\<rparr>"

text \<open>A data point of the same profile whose reporting period is no date.\<close>

definition bad_period_datapoint :: datapoint where
  "bad_period_datapoint =
     \<lparr>dimensions = Some (sample_dims\<lparr>reporting_period_by_day := Some ''n/a''\<rparr>),
      metrics = Some twitter_example_metrics\<rparr>"

subsection \<open>One group in one month (\<^verbatim>\<open>processGroupAnalytics\<close>, lines 733 to 1196)\<close>

text \<open>
  The calls that leave the script, each with its outcome for the unit of work at hand:
  the Drive and Sheets helpers of \<^verbatim>\<open>utils/drive\<close> and \<^verbatim>\<open>utils/sheets\<close>, the grouping of
  \<^verbatim>\<open>utils/groups\<close> and the analytics fetch of \<^verbatim>\<open>utils/api\<close>.
  \<^item> \<^verbatim>\<open>clients_ok\<close>: \<^verbatim>\<open>googleClients\<close> has both \<^verbatim>\<open>drive\<close> and \<^verbatim>\<open>sheets\<close>;
  \<^item> \<^verbatim>\<open>findSpreadsheetByPattern\<close>: the identifier of the existing spreadsheet, if any;
  \<^item> \<^verbatim>\<open>updateSpreadsheetTitle\<close>: the title update of an existing spreadsheet, and
    \<^verbatim>\<open>finalTitleUpdate\<close>: the title update after the writes;
  \<^item> \<^verbatim>\<open>createSpreadsheet\<close>: the identifier of the new spreadsheet, if one was made;
  \<^item> \<^verbatim>\<open>groupProfilesByNetworkType\<close>: the entries of \<^verbatim>\<open>profilesByNetwork\<close>, in order;
  \<^item> \<^verbatim>\<open>createSheet\<close> by sheet name, \<^verbatim>\<open>setupHeaders\<close> and \<^verbatim>\<open>updateSheet\<close> by platform module;
  \<^item> \<^verbatim>\<open>getSheetValues\<close>: the rows of column A of a sheet, as strings, or \<^verbatim>\<open>null\<close>;
  \<^item> \<^verbatim>\<open>getAnalyticsData\<close>: \<^verbatim>\<open>analyticsData.data\<close>, or nothing when the answer or its data
    is missing;
  \<^item> \<^verbatim>\<open>elapsed\<close>: the number of minutes that the \<^verbatim>\<open>catch\<close> block prints.
  \<^verbatim>\<open>applySheetStyling\<close> and \<^verbatim>\<open>addMonthlySummary\<close> catch their own errors.
\<close>

record world =
  clients_ok :: bool
  findSpreadsheetByPattern :: "string option outcome"
  updateSpreadsheetTitle :: "unit outcome"
  createSpreadsheet :: "string option outcome"
  groupProfilesByNetworkType :: "(string \<times> profile list) list"
  createSheet :: "string \<Rightarrow> unit outcome"
  setupHeaders :: "platform \<Rightarrow> unit outcome"
  getSheetValues :: "string \<Rightarrow> string list list option outcome"
  getAnalyticsData :: "datapoint list option outcome"
  updateSheet :: "platform \<Rightarrow> unit outcome"
  finalTitleUpdate :: "unit outcome"
  elapsed :: string

record folder_config =
  cfg_folderId :: string
  cfg_startDate :: string
  cfg_endDate :: string
  cfg_description :: string

text \<open>
  A result object. The error result of the \<^verbatim>\<open>catch\<close> block has the group, the profile
  count and the status only.
\<close>

record result =
  groupId :: string
  groupName :: string
  folderId :: "string option"
  description :: "string option"
  dateRange :: "string option"
  profileCount :: nat
  spreadsheetId :: "string option"
  spreadsheetUrl :: "string option"
  status :: string

text \<open>What the unit does to the outside, in order.\<close>

datatype event =
    ReadColumnA string
  | FetchAnalytics
  | AppendRows platform "cell list list"
  | MonthlySummary platform

definition upper_char :: "char \<Rightarrow> char" where
  "upper_char c =
     (case map_of (zip ''abcdefghijklmnopqrstuvwxyz'' ''ABCDEFGHIJKLMNOPQRSTUVWXYZ'') c of
        Some u \<Rightarrow> u
      | None \<Rightarrow> c)"

text \<open>\<^verbatim>\<open>networkType.charAt(0).toUpperCase() + networkType.slice(1)\<close>.\<close>

definition sheetNameOf :: "string \<Rightarrow> string" where
  "sheetNameOf nt = (case nt of [] \<Rightarrow> [] | c # rest \<Rightarrow> upper_char c # rest)"

text \<open>
  Finding the spreadsheet of the group or creating it: the identifier of the
  spreadsheet, or nothing when \<^verbatim>\<open>createSpreadsheet\<close> returns no identifier (the test
  \<^verbatim>\<open>!spreadsheetId\<close> also rejects the empty string).
\<close>

definition openSpreadsheet :: "world \<Rightarrow> string option outcome" where
  "openSpreadsheet w =
     (case findSpreadsheetByPattern w of
        Throws e \<Rightarrow> Throws e
      | Returns (Some existing) \<Rightarrow>
          (case updateSpreadsheetTitle w of
             Throws e \<Rightarrow> Throws e
           | Returns u \<Rightarrow> Returns (Some existing))
      | Returns None \<Rightarrow>
          (case createSpreadsheet w of
             Throws e \<Rightarrow> Throws e
           | Returns None \<Rightarrow> Returns None
           | Returns (Some created) \<Rightarrow>
               if created = [] then Returns None else Returns (Some created)))"

text \<open>
  The loop that creates one sheet per network type with profiles and sets up its headers
  when the type has a platform module.
\<close>

fun createSheets :: "world \<Rightarrow> (string \<times> profile list) list \<Rightarrow> string list \<Rightarrow> string list outcome" where
  "createSheets w [] createdSheets = Returns createdSheets"
| "createSheets w ((nt, networkProfiles) # rest) createdSheets =
     (if networkProfiles \<noteq> [] then
        (case createSheet w (sheetNameOf nt) of
           Throws e \<Rightarrow> Throws e
         | Returns u \<Rightarrow>
             (case map_of networkModules nt of
                None \<Rightarrow> createSheets w rest (createdSheets @ [sheetNameOf nt])
              | Some pf \<Rightarrow>
                  (case setupHeaders w pf of
                     Throws e \<Rightarrow> Throws e
                   | Returns u' \<Rightarrow>
                       createSheets w rest (createdSheets @ [sheetNameOf nt]))))
      else createSheets w rest createdSheets)"

text \<open>
  The duplicate check (lines 869 to 903).
  \<^verbatim>\<open>existingValues.some((row) => row[0] && row[0].startsWith(monthYearKey))\<close>:
\<close>

definition monthExists :: "string list list \<Rightarrow> string \<Rightarrow> bool" where
  "monthExists existingValues monthYearKey =
     list_ex (\<lambda>row. case row of [] \<Rightarrow> False | c # cs \<Rightarrow> c \<noteq> [] \<and> prefix monthYearKey c)
       existingValues"

text \<open>
  The loop over \<^verbatim>\<open>createdSheets\<close> inside the \<^verbatim>\<open>try\<close>: it reads column A of each sheet in
  turn, stops with \<^verbatim>\<open>true\<close> at the first sheet of more than one row that has the month,
  and is left by the first read that throws. The second component lists the reads made.
\<close>

fun scanSheets :: "world \<Rightarrow> string \<Rightarrow> string list \<Rightarrow> bool outcome \<times> event list" where
  "scanSheets w monthYearKey [] = (Returns False, [])"
| "scanSheets w monthYearKey (sheetName # rest) =
     (case getSheetValues w sheetName of
        Throws e \<Rightarrow> (Throws e, [ReadColumnA sheetName])
      | Returns existingValues \<Rightarrow>
          (case existingValues of
             None \<Rightarrow>
               (let (r, evs) = scanSheets w monthYearKey rest in (r, ReadColumnA sheetName # evs))
           | Some rows \<Rightarrow>
               if 1 < length rows \<and> monthExists rows monthYearKey
               then (Returns True, [ReadColumnA sheetName])
               else (let (r, evs) = scanSheets w monthYearKey rest
                     in (r, ReadColumnA sheetName # evs))))"

text \<open>
  \<^verbatim>\<open>existingData\<close> after the \<^verbatim>\<open>try\<close>/\<^verbatim>\<open>catch\<close>: the \<^verbatim>\<open>catch\<close> only logs, so a read that
  throws leaves the initial \<^verbatim>\<open>false\<close>.
\<close>

definition existingData :: "world \<Rightarrow> string \<Rightarrow> string list \<Rightarrow> bool" where
  "existingData w startDate' createdSheets =
     (case fst (scanSheets w (take 7 startDate') createdSheets) of
        Returns b \<Rightarrow> b
      | Throws e \<Rightarrow> False)"

definition platform_name :: "platform \<Rightarrow> string" where
  "platform_name pf =
     (case pf of Instagram \<Rightarrow> ''instagram'' | Youtube \<Rightarrow> ''youtube''
      | Linkedin \<Rightarrow> ''linkedin'' | Facebook \<Rightarrow> ''facebook'' | Twitter \<Rightarrow> ''twitter'')"

text \<open>
  The platforms whose sheet is updated, in the order of \<^verbatim>\<open>Object.entries(rowsByNetwork)\<close>:
  those with at least one row and a sheet among the created ones.
\<close>

definition sheetsToUpdate :: "(platform \<times> cell list) list \<Rightarrow> string list \<Rightarrow> platform list" where
  "sheetsToUpdate routed createdSheets =
     filter (\<lambda>pf. rowsByNetwork routed pf \<noteq> []
                  \<and> sheetNameOf (platform_name pf) \<in> set createdSheets)
       [Instagram, Youtube, Linkedin, Facebook, Twitter]"

text \<open>
  All updates are started before \<^verbatim>\<open>Promise.all\<close> is awaited. An update that succeeds
  appends its rows and then runs \<^verbatim>\<open>addMonthlySummary\<close>, which catches its own errors; one
  that throws appends nothing and rejects \<^verbatim>\<open>Promise.all\<close>. When several reject, the error
  that reaches the \<^verbatim>\<open>catch\<close> is taken to be that of the first platform in the list.
\<close>

definition updateEvents :: "world \<Rightarrow> (platform \<times> cell list) list \<Rightarrow> platform list \<Rightarrow> event list" where
  "updateEvents w routed pfs =
     concat (map (\<lambda>pf. case updateSheet w pf of
                          Returns u \<Rightarrow> [AppendRows pf (rowsByNetwork routed pf), MonthlySummary pf]
                        | Throws e \<Rightarrow> []) pfs)"

definition firstRejection :: "world \<Rightarrow> platform list \<Rightarrow> string option" where
  "firstRejection w pfs =
     (case List.map_filter (\<lambda>pf. case updateSheet w pf of Throws e \<Rightarrow> Some e | Returns u \<Rightarrow> None)
             pfs of
        [] \<Rightarrow> None
      | e # es \<Rightarrow> Some e)"

definition folderResult ::
  "string \<Rightarrow> string \<Rightarrow> profile list \<Rightarrow> folder_config \<Rightarrow> string \<Rightarrow> string \<Rightarrow> result" where
  "folderResult gid gname profiles cfg sid st =
     \<lparr>groupId = gid, groupName = gname, folderId = Some (cfg_folderId cfg),
      description = Some (cfg_description cfg),
      dateRange = Some (cfg_startDate cfg @ '' to '' @ cfg_endDate cfg),
      profileCount = length profiles, spreadsheetId = Some sid,
      spreadsheetUrl = Some (''https://docs.google.com/spreadsheets/d/'' @ sid @ ''/edit''),
      status = st\<rparr>"

definition errorResult :: "world \<Rightarrow> string \<Rightarrow> string \<Rightarrow> profile list \<Rightarrow> string \<Rightarrow> result" where
  "errorResult w gid gname profiles message =
     \<lparr>groupId = gid, groupName = gname, folderId = None, description = None, dateRange = None,
      profileCount = length profiles, spreadsheetId = None, spreadsheetUrl = None,
      status = ''Error after '' @ elapsed w @ '' minutes: '' @ message\<rparr>"

text \<open>
  From the fetch to the result (lines 924 to 1154), for a unit that the duplicate check
  lets through. The block that logs a sample data point between the fetch and the test
  for data only reads and prints.
\<close>

definition fetchAndWrite ::
  "world \<Rightarrow> runtime \<Rightarrow> string \<Rightarrow> string \<Rightarrow> profile list \<Rightarrow> folder_config \<Rightarrow> string \<Rightarrow>
   string list \<Rightarrow> result list outcome \<times> event list" where
  "fetchAndWrite w rt gid gname profiles cfg sid createdSheets =
     (case getAnalyticsData w of
        Throws e \<Rightarrow> (Throws e, [FetchAnalytics])
      | Returns analyticsData \<Rightarrow>
          (case analyticsData of
             None \<Rightarrow> (Returns [folderResult gid gname profiles cfg sid ''No data''],
                       [FetchAnalytics])
           | Some dps \<Rightarrow>
               if dps = []
               then (Returns [folderResult gid gname profiles cfg sid ''No data''],
                     [FetchAnalytics])
               else
                 (case groupDataPoints rt dps [] of
                    Throws e \<Rightarrow> (Throws e, [FetchAnalytics])
                  | Returns groups \<Rightarrow>
                      (let routed = route rt profiles groups;
                           pfs = sheetsToUpdate routed createdSheets;
                           evs = FetchAnalytics # updateEvents w routed pfs
                       in case firstRejection w pfs of
                            Some e \<Rightarrow> (Throws e, evs)
                          | None \<Rightarrow>
                              (case finalTitleUpdate w of
                                 Throws e \<Rightarrow> (Throws e, evs)
                               | Returns u \<Rightarrow>
                                   (Returns [folderResult gid gname profiles cfg sid
                                               ''Completed''], evs))))))"

text \<open>
  The body of the loop over \<^verbatim>\<open>FOLDER_CONFIGS\<close>, which holds one configuration: the
  results pushed, or the error thrown, and the events.
\<close>

definition folderBody ::
  "world \<Rightarrow> runtime \<Rightarrow> string \<Rightarrow> string \<Rightarrow> profile list \<Rightarrow> folder_config \<Rightarrow>
   result list outcome \<times> event list" where
  "folderBody w rt gid gname profiles cfg =
     (if \<not> clients_ok w then (Throws ''Invalid Google API clients provided'', [])
      else
        (case openSpreadsheet w of
           Throws e \<Rightarrow> (Throws e, [])
         | Returns None \<Rightarrow> (Returns [], [])
         | Returns (Some sid) \<Rightarrow>
             (case createSheets w (groupProfilesByNetworkType w) [] of
                Throws e \<Rightarrow> (Throws e, [])
              | Returns createdSheets \<Rightarrow>
                  (let reads = snd (scanSheets w (take 7 (cfg_startDate cfg)) createdSheets) in
                   if existingData w (cfg_startDate cfg) createdSheets
                   then (Returns [folderResult gid gname profiles cfg sid
                                    ''Already updated for this month''], reads)
                   else (let (r, evs) = fetchAndWrite w rt gid gname profiles cfg sid createdSheets
                         in (r, reads @ evs))))))"

text \<open>
  \<^verbatim>\<open>processGroupAnalytics\<close>: the outer \<^verbatim>\<open>catch\<close> turns any error into a single error
  result, so the function always returns a list of results.
\<close>

definition processGroupAnalytics ::
  "world \<Rightarrow> runtime \<Rightarrow> string \<Rightarrow> string \<Rightarrow> profile list \<Rightarrow> folder_config \<Rightarrow>
   result list \<times> event list" where
  "processGroupAnalytics w rt gid gname profiles cfg =
     (case folderBody w rt gid gname profiles cfg of
        (Throws message, evs) \<Rightarrow> ([errorResult w gid gname profiles message], evs)
      | (Returns results, evs) \<Rightarrow> (results, evs))"

text \<open>The statuses that the specification lists.\<close>

definition listed_status :: "string \<Rightarrow> bool" where
  "listed_status s =
     (s = ''Completed'' \<or> s = ''No data'' \<or> s = ''Already updated for this month''
      \<or> prefix ''Error after '' s)"

definition fetches :: "event list \<Rightarrow> nat" where
  "fetches evs = length (filter (\<lambda>ev. ev = FetchAnalytics) evs)"

definition appendedRows :: "event list \<Rightarrow> cell list list" where
  "appendedRows evs = concat (map (\<lambda>ev. case ev of AppendRows pf rows \<Rightarrow> rows | _ \<Rightarrow> []) evs)"

subsection \<open>One month and the whole run (\<^verbatim>\<open>processMonthAnalytics\<close>, \<^verbatim>\<open>main\<close>)\<close>

datatype retry_event = Attempt nat | Sleep nat

text \<open>
  The retry loop that \<^verbatim>\<open>processMonthAnalytics\<close> writes out twice (lines 1223 to 1249 for
  the groups, 1259 to 1282 for the profiles), with its bound 3 and its delay 10000 as
  parameters: a non-empty answer leaves the loop; an empty answer or an error is logged
  and followed by a sleep unless the attempt was the last; after the last attempt the
  list is still empty.
\<close>

function retryLoop ::
  "nat \<Rightarrow> nat \<Rightarrow> (nat \<Rightarrow> 'a list outcome) \<Rightarrow> nat \<Rightarrow> 'a list \<times> retry_event list" where
  "retryLoop maxAttempts delay call attempt =
     (if attempt \<le> maxAttempts then
        (case call attempt of
           Returns xs \<Rightarrow>
             if xs \<noteq> [] then (xs, [Attempt attempt])
             else (let (r, evs) = retryLoop maxAttempts delay call (attempt + 1)
                   in (r, Attempt attempt
                          # (if attempt < maxAttempts then [Sleep delay] else []) @ evs))
         | Throws e \<Rightarrow>
             (let (r, evs) = retryLoop maxAttempts delay call (attempt + 1)
              in (r, Attempt attempt
                     # (if attempt < maxAttempts then [Sleep delay] else []) @ evs)))
      else ([], []))"
  by pat_completeness auto
termination
  by (relation "measure (\<lambda>(maxAttempts, delay, call, attempt). maxAttempts + 1 - attempt)") auto

declare retryLoop.simps [simp del]

text \<open>
  Modelled from the spec: \<^verbatim>\<open>getAnalyticsData\<close> of \<^verbatim>\<open>utils/api\<close> (the AnalyticsFetcher),
  which is not among the source files. Section 4.2: each network call is retried up to
  a fixed bounded count (default 3) with a fixed delay between attempts (default about
  10 seconds) on a network error or on a successful but data-less response; after the
  retries are exhausted the call returns an empty result rather than raising. The caller
  receives the data as \<^verbatim>\<open>analyticsData.data\<close>.
\<close>

definition AnalyticsFetcher ::
  "nat \<Rightarrow> nat \<Rightarrow> (nat \<Rightarrow> datapoint list outcome) \<Rightarrow>
   datapoint list option outcome \<times> retry_event list" where
  "AnalyticsFetcher maxRetries delay request =
     (let (dps, evs) = retryLoop maxRetries delay request 1 in (Returns (Some dps), evs))"

definition attempts_made :: "retry_event list \<Rightarrow> nat list" where
  "attempts_made evs = concat (map (\<lambda>ev. case ev of Attempt n \<Rightarrow> [n] | Sleep d \<Rightarrow> []) evs)"

definition sleeps_made :: "retry_event list \<Rightarrow> nat list" where
  "sleeps_made evs = concat (map (\<lambda>ev. case ev of Attempt n \<Rightarrow> [] | Sleep d \<Rightarrow> [d]) evs)"

text \<open>An attempt fails when it throws or when it brings no data.\<close>

definition attempt_fails :: "'a list outcome \<Rightarrow> bool" where
  "attempt_fails r = (case r of Throws e \<Rightarrow> True | Returns xs \<Rightarrow> xs = [])"

text \<open>
  The outside of one month: the answers of the groups and profiles endpoints by attempt,
  the entries of \<^verbatim>\<open>profilesByGroup\<close> (group id, group name, profiles) as
  \<^verbatim>\<open>groupProfilesByGroup\<close> of \<^verbatim>\<open>utils/groups\<close> or the fallback in its \<^verbatim>\<open>catch\<close> builds
  them, and the outside of each unit of work.
\<close>

record month_world =
  getCustomerGroups :: "nat \<Rightarrow> (string \<times> string) list outcome"
  getAllProfiles :: "nat \<Rightarrow> profile list outcome"
  profilesByGroup :: "(string \<times> string \<times> profile list) list"
  unit_world :: "string \<Rightarrow> world"

datatype month_event =
    GroupsFetch "retry_event list"
  | ProfilesFetch "retry_event list"
  | Unit string "event list"
  | Pause nat

text \<open>
  The loop over the groups of a month (lines 1321 to 1363): a group without profiles is
  skipped, the results of a unit are appended, and five minutes pass after each unit.
\<close>

fun processUnits ::
  "(string \<Rightarrow> world) \<Rightarrow> runtime \<Rightarrow> folder_config \<Rightarrow> (string \<times> string \<times> profile list) list \<Rightarrow>
   result list \<times> month_event list" where
  "processUnits uw rt cfg [] = ([], [])"
| "processUnits uw rt cfg ((gid, gname, profiles) # rest) =
     (if profiles \<noteq> [] then
        (let (results, evs) = processGroupAnalytics (uw gid) rt gid gname profiles cfg;
             (monthResults, mevs) = processUnits uw rt cfg rest
         in (results @ monthResults, Unit gid evs # Pause (5 * 60 * 1000) # mevs))
      else processUnits uw rt cfg rest)"

text \<open>
  The folder configuration of a month; the month name comes from the locale of the host.
\<close>

definition folderConfigOf :: "month_range \<Rightarrow> string \<Rightarrow> folder_config" where
  "folderConfigOf monthRange monthName =
     \<lparr>cfg_folderId = ''1OA82RSaq0On_ERovDsZYUqeoMByyWruP'',
      cfg_startDate = startDate monthRange, cfg_endDate = endDate monthRange,
      cfg_description = ''Monthly Report - '' @ monthName @ '' '' @ show_int (year monthRange)\<rparr>"

definition processMonthAnalytics ::
  "month_world \<Rightarrow> runtime \<Rightarrow> month_range \<Rightarrow> string \<Rightarrow> result list \<times> month_event list" where
  "processMonthAnalytics mw rt monthRange monthName =
     (let (groups, gevs) = retryLoop 3 10000 (getCustomerGroups mw) 1 in
      if groups = [] then ([], [GroupsFetch gevs])
      else
        (let (profiles, pevs) = retryLoop 3 10000 (getAllProfiles mw) 1 in
         if profiles = [] then ([], [GroupsFetch gevs, ProfilesFetch pevs])
         else
           (let (monthResults, mevs) =
                  processUnits (unit_world mw) rt (folderConfigOf monthRange monthName)
                    (profilesByGroup mw)
            in (monthResults, GroupsFetch gevs # ProfilesFetch pevs # mevs))))"

text \<open>
  \<^verbatim>\<open>allResults\<close> of \<^verbatim>\<open>main\<close>: the results of the months, in order.
\<close>

definition allResults ::
  "(jsdate \<Rightarrow> month_world) \<Rightarrow> runtime \<Rightarrow> (jsdate \<Rightarrow> string) \<Rightarrow> jsdate \<Rightarrow> result list" where
  "allResults mw rt monthName currentDate =
     concat (map (\<lambda>monthDate. fst (processMonthAnalytics (mw monthDate) rt
                                     (getMonthDateRange monthDate) (monthName monthDate)))
               (monthsToProcess currentDate))"

text \<open>
  The summary of \<^verbatim>\<open>main\<close> (lines 1441 to 1449) groups the results under
  \<^verbatim>\<open>result.startDate.substring(0, 7)\<close>. No result object has a property \<^verbatim>\<open>startDate\<close>
  (see \<^verbatim>\<open>folderResult\<close> and \<^verbatim>\<open>errorResult\<close>), so the read gives \<^verbatim>\<open>undefined\<close> and
  \<^verbatim>\<open>substring\<close> throws a \<^verbatim>\<open>TypeError\<close>.
\<close>

definition result_startDate :: "result \<Rightarrow> string option" where
  "result_startDate r = None"

fun resultsByMonth ::
  "result list \<Rightarrow> (string \<times> result list) list \<Rightarrow> (string \<times> result list) list outcome" where
  "resultsByMonth [] acc = Returns acc"
| "resultsByMonth (r # rs) acc =
     (case result_startDate r of
        None \<Rightarrow> Throws ''Cannot read properties of undefined (reading substring)''
      | Some s \<Rightarrow>
          (let monthKey = take 7 s in
           case map_of acc monthKey of
             None \<Rightarrow> resultsByMonth rs (acc @ [(monthKey, [r])])
           | Some rs' \<Rightarrow>
               resultsByMonth rs (map (\<lambda>(k, v). if k = monthKey then (k, v @ [r]) else (k, v)) acc)))"

text \<open>
  How \<^verbatim>\<open>main\<close> ends: with the summary printed by month, or in its own \<^verbatim>\<open>catch\<close>, which
  logs the error. Either way it returns.
\<close>

datatype main_end = SummaryPrinted "(string \<times> result list) list" | MainCaught string

definition main ::
  "(jsdate \<Rightarrow> month_world) \<Rightarrow> runtime \<Rightarrow> (jsdate \<Rightarrow> string) \<Rightarrow> jsdate \<Rightarrow> main_end" where
  "main mw rt monthName currentDate =
     (case resultsByMonth (allResults mw rt monthName currentDate) [] of
        Throws e \<Rightarrow> MainCaught e
      | Returns byMonth \<Rightarrow> SummaryPrinted byMonth)"

subsection \<open>Sample units of work\<close>

definition sample_config :: folder_config where
  "sample_config =
     \<lparr>cfg_folderId = ''1OA82RSaq0On_ERovDsZYUqeoMByyWruP'', cfg_startDate = ''2024-01-01'',
      cfg_endDate = ''2024-01-31'', cfg_description = ''Monthly Report - January 2024''\<rparr>"

text \<open>
  A group with one Twitter profile whose spreadsheet exists, whose Twitter sheet holds
  the header and one row of January 2024, and whose fetch would bring two data points.
\<close>

definition synced_world :: world where
  "synced_world =
     \<lparr>clients_ok = True,
      findSpreadsheetByPattern = Returns (Some ''sheet-1''),
      updateSpreadsheetTitle = Returns (),
      createSpreadsheet = Returns None,
      groupProfilesByNetworkType = [(''twitter'', [sample_profile])],
      createSheet = (\<lambda>s. Returns ()),
      setupHeaders = (\<lambda>pf. Returns ()),
      getSheetValues = (\<lambda>s. Returns (Some [[''Date''], [''2024-01-15'']])),
      getAnalyticsData = Returns (Some [twitter_example_datapoint, empty_metrics_datapoint]),
      updateSheet = (\<lambda>pf. Returns ()),
      finalTitleUpdate = Returns (),
      elapsed = ''0.1''\<rparr>"

text \<open>The same, with a Twitter sheet whose column A is the single cell \<^verbatim>\<open>2024-01-15\<close>.\<close>

definition single_row_world :: world where
  "single_row_world = synced_world\<lparr>getSheetValues := (\<lambda>s. Returns (Some [[''2024-01-15'']]))\<rparr>"

text \<open>
  The same group with an Instagram profile as well: the Instagram sheet is read first
  and the read throws, the Twitter sheet holds January 2024.
\<close>

definition read_failure_world :: world where
  "read_failure_world =
     synced_world
       \<lparr>groupProfilesByNetworkType := [(''instagram'', [sample_profile]), (''twitter'', [sample_profile])],
        getSheetValues := (\<lambda>s. if s = ''Instagram'' then Throws ''Quota exceeded''
                                else Returns (Some [[''Date''], [''2024-01-15'']]))\<rparr>"

text \<open>A group for which no spreadsheet is found and none can be created.\<close>

definition no_spreadsheet_world :: world where
  "no_spreadsheet_world = synced_world\<lparr>findSpreadsheetByPattern := Returns None\<rparr>"

text \<open>A group whose spreadsheet search throws.\<close>

definition failing_world :: world where
  "failing_world = synced_world\<lparr>findSpreadsheetByPattern := Throws ''Quota exceeded''\<rparr>"

text \<open>A group whose sheets are empty and whose fetch comes from the fetcher.\<close>

definition unsynced_world :: "datapoint list option outcome \<Rightarrow> world" where
  "unsynced_world fetched =
     synced_world\<lparr>getSheetValues := (\<lambda>s. Returns (Some [[''Date'']])),
                  getAnalyticsData := fetched\<rparr>"

text \<open>A request that fails on every attempt, by an error or by an empty answer.\<close>

definition failing_request :: "nat \<Rightarrow> datapoint list outcome" where
  "failing_request n = (if even n then Throws ''ECONNRESET'' else Returns [])"

section \<open>Properties\<close>

subsection \<open>Network-type mapping\<close>

lemma toLowerCase_TikTok: "toLowerCase ''TikTok'' = ''tiktok''"
  by (simp add: toLowerCase_def lower_char_def)

text \<open>
  C3, as stated, at the raw type \<^verbatim>\<open>TikTok\<close>: it is not a key of the table, yet the
  canonical key differs from it.
\<close>

theorem C3_unchanged_counterexample:
  "map_of networkTypeMapping ''TikTok'' = None
   \<and> networkType ''TikTok'' = Key ''tiktok''
   \<and> networkType ''TikTok'' \<noteq> Key ''TikTok''"
  by (simp add: networkType_def networkTypeMapping_def object_prototype_names_def
      toLowerCase_TikTok)

text \<open>
  C3, amended: the five table entries map as listed, every raw type that is neither in
  the table nor a member name of \<^verbatim>\<open>Object.prototype\<close> yields its lower-cased form, and
  \<^verbatim>\<open>fb_instagram_account\<close> is dispatched to the Instagram normalizer (which also
  recognises it), not to Facebook.
\<close>

theorem C3_network_type_mapping:
  "networkType ''linkedin_company'' = Key ''linkedin''
   \<and> networkType ''fb_instagram_account'' = Key ''instagram''
   \<and> networkType ''fb_page'' = Key ''facebook''
   \<and> networkType ''youtube_channel'' = Key ''youtube''
   \<and> networkType ''twitter_profile'' = Key ''twitter''
   \<and> (raw \<notin> fst ` set networkTypeMapping \<and> raw \<notin> set object_prototype_names
        \<longrightarrow> networkType raw = Key (toLowerCase raw))
   \<and> dispatch ''fb_instagram_account'' = Some Instagram
   \<and> dispatch ''fb_instagram_account'' \<noteq> Some Facebook
   \<and> isInstagramType ''fb_instagram_account''"
proof -
  have table: "networkType ''linkedin_company'' = Key ''linkedin''"
    "networkType ''fb_instagram_account'' = Key ''instagram''"
    "networkType ''fb_page'' = Key ''facebook''"
    "networkType ''youtube_channel'' = Key ''youtube''"
    "networkType ''twitter_profile'' = Key ''twitter''"
    by (simp_all add: networkType_def networkTypeMapping_def)
  have other: "networkType raw = Key (toLowerCase raw)"
    if "raw \<notin> fst ` set networkTypeMapping" "raw \<notin> set object_prototype_names"
  proof -
    from that(1) have "map_of networkTypeMapping raw = None"
      by (simp add: map_of_eq_None_iff)
    with that(2) show ?thesis by (simp add: networkType_def)
  qed
  have disp: "dispatch ''fb_instagram_account'' = Some Instagram"
    by (simp add: dispatch_def formatter_of_def table networkModules_def)
  have inst: "isInstagramType ''fb_instagram_account''"
    by (simp add: isInstagramType_def INSTAGRAM_NETWORK_TYPES_def)
  from table other disp inst show ?thesis by simp
qed

theorem C3_network_type_mapping_witness:
  "''threads'' \<notin> fst ` set networkTypeMapping \<and> ''threads'' \<notin> set object_prototype_names
   \<and> networkType ''threads'' = Key ''threads''
   \<and> dispatch ''fb_instagram_account'' = Some Instagram"
proof -
  have a: "''threads'' \<notin> fst ` set networkTypeMapping"
    by (simp add: networkTypeMapping_def)
  have b: "''threads'' \<notin> set object_prototype_names"
    by (simp add: object_prototype_names_def)
  have c: "toLowerCase ''threads'' = ''threads''"
    by (simp add: toLowerCase_def lower_char_def)
  from a b c C3_network_type_mapping [of "''threads''"] show ?thesis by simp
qed

subsection \<open>Month windows\<close>

lemma show_nat_small: "n < 10 \<Longrightarrow> show_nat n = [digit_char n]"
  by (simp add: show_nat.simps)

lemma show_nat_big: "10 \<le> n \<Longrightarrow> show_nat n = show_nat (n div 10) @ [digit_char (n mod 10)]"
  by (simp add: show_nat.simps)

lemma monthIndex_first [simp]: "monthIndex (first_of_month k) = k"
  by (simp add: monthIndex_def first_of_month_def)

lemma next_month_arith:
  "k div 12 + int ((nat (k mod 12) + 1) div 12) = (k + 1) div 12"
  "(nat (k mod 12) + 1) mod 12 = nat ((k + 1) mod 12)"
proof -
  have s: "int (nat (k mod 12) + 1) = k mod 12 + 1" by simp
  have "int ((nat (k mod 12) + 1) div 12) = int (nat (k mod 12) + 1) div int 12"
    by (rule zdiv_int)
  also have "\<dots> = (k mod 12 + 1) div 12"
    by (simp only: s of_nat_numeral)
  finally have y1: "int ((nat (k mod 12) + 1) div 12) = (k mod 12 + 1) div 12" .
  have e: "k + 1 = (k mod 12 + 1) + (k div 12) * 12" by simp
  have "(k + 1) div 12 = ((k mod 12 + 1) + (k div 12) * 12) div 12"
    by (subst e) (rule refl)
  also have "\<dots> = k div 12 + (k mod 12 + 1) div 12"
    by (rule div_mult_self1) simp
  finally have y2: "k div 12 + (k mod 12 + 1) div 12 = (k + 1) div 12" by (rule sym)
  show "k div 12 + int ((nat (k mod 12) + 1) div 12) = (k + 1) div 12"
    by (simp only: y1 y2)
  have "int ((nat (k mod 12) + 1) mod 12) = int (nat (k mod 12) + 1) mod int 12"
    by (rule zmod_int)
  also have "\<dots> = (k mod 12 + 1) mod 12"
    by (simp only: s of_nat_numeral)
  also have "\<dots> = (k + 1) mod 12" by presburger
  finally have "int ((nat (k mod 12) + 1) mod 12) = (k + 1) mod 12" .
  then show "(nat (k mod 12) + 1) mod 12 = nat ((k + 1) mod 12)"
    by (simp only: nat_int [symmetric])
qed

lemma daysInMonth_pos: "1 \<le> daysInMonth y m"
  by (simp add: daysInMonth_def)

lemma setMonth_first:
  "setMonth (first_of_month k) (getMonth (first_of_month k) + 1) = first_of_month (k + 1)"
proof -
  have g: "getMonth (first_of_month k) = nat (k mod 12)" "getFullYear (first_of_month k) = k div 12"
    "getDate (first_of_month k) = 1"
    by (simp_all add: first_of_month_def)
  have "setMonth (first_of_month k) (nat (k mod 12) + 1)
        = (first_of_month k)\<lparr>getFullYear := (k + 1) div 12, getMonth := nat ((k + 1) mod 12)\<rparr>"
    unfolding setMonth_def Let_def g next_month_arith
    using daysInMonth_pos by simp
  also have "\<dots> = first_of_month (k + 1)"
    by (simp add: first_of_month_def)
  finally show ?thesis by (simp only: g)
qed


lemma date_le_first: "1 \<le> getDate now \<Longrightarrow> date_le (first_of_month k) now \<longleftrightarrow> k \<le> monthIndex now"
  by (auto simp: date_le_def) (simp_all add: first_of_month_def)

lemma monthsFrom_first:
  assumes "1 \<le> getDate now"
  shows "monthsFrom (first_of_month k) now = map first_of_month [k..monthIndex now]"
proof (induction "nat (monthIndex now + 1 - k)" arbitrary: k)
  case 0
  then have "\<not> k \<le> monthIndex now" by simp
  then show ?case
    by (subst monthsFrom.simps) (simp add: date_le_first [OF assms])
next
  case (Suc n)
  then have le: "k \<le> monthIndex now" by simp
  from Suc have "n = nat (monthIndex now + 1 - (k + 1))" by simp
  then have ih: "monthsFrom (first_of_month (k + 1)) now = map first_of_month [k + 1..monthIndex now]"
    by (rule Suc.hyps(1))
  have "monthsFrom (first_of_month k) now = first_of_month k # monthsFrom (first_of_month (k + 1)) now"
    by (subst monthsFrom.simps) (simp only: date_le_first [OF assms] le setMonth_first if_True)
  also have "\<dots> = map first_of_month [k..monthIndex now]"
    using le by (simp add: ih upto_rec1 [of k])
  finally show ?case .
qed

lemma newDate1_first: "newDate1 (k div 12) (nat (k mod 12)) = first_of_month k"
  by (simp add: newDate1_def first_of_month_def)

lemma newDate0_last: "newDate0 (k div 12) (nat (k mod 12) + 1) = last_of_month k"
proof (cases "k mod 12 = 11")
  case True
  then show ?thesis
    by (simp add: newDate0_def newDate1_def last_of_month_def daysInMonth_def)
next
  case False
  have "0 \<le> k mod 12" "k mod 12 < 12" by simp_all
  with False have "nat (k mod 12) < 11" by linarith
  then show ?thesis
    by (simp add: newDate0_def newDate1_def last_of_month_def)
qed

lemma getMonthDateRange_first:
  "getMonthDateRange (first_of_month k)
   = \<lparr>startDate = fst (calendar_month k), endDate = snd (calendar_month k), year = k div 12\<rparr>"
proof -
  have g: "getFullYear (first_of_month k) = k div 12" "getMonth (first_of_month k) = nat (k mod 12)"
    by (simp_all add: first_of_month_def)
  show ?thesis
    unfolding getMonthDateRange_def g newDate1_first newDate0_last
    by (simp add: calendar_month_def first_of_month_def)
qed

lemma next_day_last: "next_day (last_of_month k) = first_of_month (k + 1)"
proof (cases "k mod 12 = 11")
  case True
  then have "(k + 1) mod 12 = 0" "(k + 1) div 12 = k div 12 + 1"
    using next_month_arith [of k] by simp_all
  with True show ?thesis
    by (simp add: next_day_def last_of_month_def first_of_month_def)
next
  case False
  have "0 \<le> k mod 12" "k mod 12 < 12" by simp_all
  with False have lt: "nat (k mod 12) < 11" by linarith
  then have "(k + 1) div 12 = k div 12" "nat ((k + 1) mod 12) = nat (k mod 12) + 1"
    using next_month_arith [of k] by simp_all
  with lt show ?thesis
    by (simp add: next_day_def last_of_month_def first_of_month_def)
qed

lemma main_startDate_first: "main_startDate = first_of_month 24288"
  by (simp add: main_startDate_def newDate1_def first_of_month_def)

lemma month_windows_calendar:
  assumes "1 \<le> getDate now"
  shows "map (\<lambda>w. (startDate w, endDate w)) (month_windows now)
           = map calendar_month [24288..monthIndex now]"
proof -
  have "month_windows now = map (getMonthDateRange \<circ> first_of_month) [24288..monthIndex now]"
    by (simp add: month_windows_def monthsToProcess_def main_startDate_first
        monthsFrom_first [OF assms])
  then show ?thesis
    by (simp add: getMonthDateRange_first)
qed

lemma calendar_month_examples:
  "calendar_month 24288 = (''2024-01-01'', ''2024-01-31'')"
  "calendar_month 24289 = (''2024-02-01'', ''2024-02-29'')"
  "calendar_month 24290 = (''2024-03-01'', ''2024-03-31'')"
  by (simp_all add: calendar_month_def formatDate_def first_of_month_def last_of_month_def
      daysInMonth_def isLeapYear_def show_int_def padStart2_def show_nat_small show_nat_big
      digit_char_def)

text \<open>
  C2: when the clock is not before January 2024, the windows of a run are exactly the
  calendar months from January 2024 (month 24288 counted from year 0) through the month
  of the clock, in ascending order, each from the first through the last day of its
  month; the day after the end of one month is the start of the next, so the sequence
  has no gap and no overlap; and the last window is the clock's own month, ending on
  that month's last day whatever the day of the clock.
\<close>

theorem C2_month_windows:
  assumes "1 \<le> getDate now" and "monthIndex main_startDate \<le> monthIndex now"
  shows "map (\<lambda>w. (startDate w, endDate w)) (month_windows now)
           = map calendar_month [monthIndex main_startDate..monthIndex now]
         \<and> month_windows now \<noteq> []
         \<and> endDate (last (month_windows now)) = formatDate (last_of_month (monthIndex now))
         \<and> getDate (last_of_month (monthIndex now))
             = daysInMonth (getFullYear (last_of_month (monthIndex now)))
                 (getMonth (last_of_month (monthIndex now)))
         \<and> (\<forall>k. next_day (last_of_month k) = first_of_month (k + 1))"
proof -
  have s: "monthIndex main_startDate = 24288"
    by (simp add: main_startDate_first)
  have le: "24288 \<le> monthIndex now" using assms(2) by (simp only: s)
  have m: "map (\<lambda>w. (startDate w, endDate w)) (month_windows now)
           = map calendar_month [24288..monthIndex now]"
    by (rule month_windows_calendar [OF assms(1)])
  have ne: "[24288..monthIndex now] \<noteq> []" using le by simp
  then have ne': "month_windows now \<noteq> []" using m by (metis map_is_Nil_conv)
  have "last [24288..monthIndex now] = monthIndex now"
    using le by (simp add: upto_rec2 [of 24288 "monthIndex now"])
  then have "last (map calendar_month [24288..monthIndex now]) = calendar_month (monthIndex now)"
    using ne by (simp add: last_map)
  then have "last (map (\<lambda>w. (startDate w, endDate w)) (month_windows now))
               = calendar_month (monthIndex now)"
    by (simp only: m)
  then have e: "endDate (last (month_windows now)) = formatDate (last_of_month (monthIndex now))"
    using ne' by (simp add: last_map calendar_month_def)
  have d: "getDate (last_of_month (monthIndex now))
             = daysInMonth (getFullYear (last_of_month (monthIndex now)))
                 (getMonth (last_of_month (monthIndex now)))"
    by (simp add: last_of_month_def)
  from m ne' e d show ?thesis
    by (simp only: s next_day_last simp_thms)
qed

theorem C2_month_windows_witness:
  "1 \<le> getDate mid_march_2024 \<and> monthIndex main_startDate \<le> monthIndex mid_march_2024
   \<and> map (\<lambda>w. (startDate w, endDate w)) (month_windows mid_march_2024)
      = [(''2024-01-01'', ''2024-01-31''), (''2024-02-01'', ''2024-02-29''),
         (''2024-03-01'', ''2024-03-31'')]"
proof -
  have a: "1 \<le> getDate mid_march_2024" by (simp add: mid_march_2024_def)
  have i: "monthIndex mid_march_2024 = 24290" by (simp add: mid_march_2024_def monthIndex_def)
  have s: "monthIndex main_startDate = 24288" by (simp add: main_startDate_first)
  have b: "monthIndex main_startDate \<le> monthIndex mid_march_2024" by (simp add: i s)
  have u: "[24288..24290] = [24288, 24289, 24290::int]" by (simp add: upto_rec1)
  from C2_month_windows [OF a b]
  have "map (\<lambda>w. (startDate w, endDate w)) (month_windows mid_march_2024)
          = map calendar_month [monthIndex main_startDate..monthIndex mid_march_2024]"
    by (rule conjunct1)
  then have "map (\<lambda>w. (startDate w, endDate w)) (month_windows mid_march_2024)
      = [(''2024-01-01'', ''2024-01-31''), (''2024-02-01'', ''2024-02-29''),
         (''2024-03-01'', ''2024-03-31'')]"
    by (simp only: i s u list.map calendar_month_examples)
  with a b show ?thesis by (intro conjI)
qed

subsection \<open>Normalizers: where the derived figures sit in a row\<close>













subsection \<open>Normalizers: the zero cases\<close>

lemma or0_absent [simp]: "or0 None = MNum 0" "or0 (Some (MNum 0)) = MNum 0"
  by (simp_all add: or0_def)

lemma zero_arith [simp]:
  "parseFloat (MNum 0) = Fin 0" "toNumber (MNum 0) = Fin 0" "jadd (Fin 0) (Fin 0) = Fin 0"
  "\<not> gt0 (Fin 0)"
  by (simp_all add: parseFloat_def toNumber_def jadd_def gt0_def)



subsection \<open>Twitter engagement total\<close>



lemma sample_reportingPeriod:
  "reportingPeriod empty_metrics_datapoint = Some ''2024-01-15''"
  "reportingPeriod twitter_example_datapoint = Some ''2024-01-15''"
  "isoDay sample_runtime ''2024-01-15'' = Some ''2024-01-15''"
  by (simp_all add: reportingPeriod_def empty_metrics_datapoint_def
      twitter_example_datapoint_def sample_dims_def sample_runtime_def)



subsection \<open>Derived figures on empty metrics and on zero impressions\<close>



subsection \<open>Resolving a profile\<close>

lemma digit_of_digit_char: "k < 10 \<Longrightarrow> digit_of 10 (digit_char k) = Some k"
proof -
  assume "k < 10"
  then have "k \<in> {0, 1, 2, 3, 4, 5, 6, 7, 8, 9}" by auto
  then show ?thesis
    by (auto simp: digit_of_def digit_char_def)
qed

lemma digit_char_plain:
  assumes "k < 10"
  shows "\<not> is_space (digit_char k)" "digit_char k \<noteq> CHR ''-''" "digit_char k \<noteq> CHR ''+''"
    "digit_char k \<noteq> CHR ''x''" "digit_char k \<noteq> CHR ''X''"
proof -
  from assms have "k \<in> {0, 1, 2, 3, 4, 5, 6, 7, 8, 9}" by auto
  then show "\<not> is_space (digit_char k)" "digit_char k \<noteq> CHR ''-''" "digit_char k \<noteq> CHR ''+''"
    "digit_char k \<noteq> CHR ''x''" "digit_char k \<noteq> CHR ''X''"
    by (auto simp: digit_char_def is_space_def)
qed

lemma show_nat_all_digits: "\<forall>c\<in>set (show_nat n). \<exists>k<10. c = digit_char k"
proof (induction n rule: show_nat.induct)
  case (1 n)
  show ?case
  proof (cases "n < 10")
    case True
    then show ?thesis by (auto simp: show_nat_small)
  next
    case False
    then have s: "show_nat n = show_nat (n div 10) @ [digit_char (n mod 10)]"
      by (simp add: show_nat_big)
    have "\<exists>k<10. digit_char (n mod 10) = digit_char k"
      by (rule exI [of _ "n mod 10"]) simp
    with 1 [OF False] show ?thesis unfolding s by simp
  qed
qed

lemma show_nat_chars: "c \<in> set (show_nat n) \<Longrightarrow> \<exists>k<10. c = digit_char k"
  using show_nat_all_digits by blast

lemma show_nat_nonempty: "show_nat n \<noteq> []"
  by (cases "n < 10") (simp_all add: show_nat_small show_nat_big)

lemma takeWhile_show_nat:
  "takeWhile (\<lambda>c. digit_of 10 c \<noteq> None) (show_nat n) = show_nat n"
proof -
  have "\<forall>c\<in>set (show_nat n). digit_of 10 c \<noteq> None"
    using show_nat_chars digit_of_digit_char by fastforce
  then show ?thesis by (simp add: takeWhile_eq_all_conv)
qed

lemma foldl_show_nat:
  "foldl (\<lambda>acc c. acc * 10 + the (digit_of 10 c)) 0 (show_nat n) = n"
proof (induction n rule: show_nat.induct)
  case (1 n)
  show ?case
  proof (cases "n < 10")
    case True
    then show ?thesis by (simp add: show_nat_small digit_of_digit_char)
  next
    case False
    then have s: "show_nat n = show_nat (n div 10) @ [digit_char (n mod 10)]"
      by (simp add: show_nat_big)
    from False 1 have "foldl (\<lambda>acc c. acc * 10 + the (digit_of 10 c)) 0 (show_nat (n div 10))
                       = n div 10" by simp
    then show ?thesis
      by (simp add: s digit_of_digit_char)
  qed
qed

lemma digits_value_show_nat: "digits_value 10 (show_nat n) = Some n"
  unfolding digits_value_def Let_def takeWhile_show_nat
  by (simp add: foldl_show_nat show_nat_nonempty)

lemma show_nat_no_x: "CHR ''x'' \<notin> set (show_nat n)" "CHR ''X'' \<notin> set (show_nat n)"
proof -
  show "CHR ''x'' \<notin> set (show_nat n)"
  proof
    assume "CHR ''x'' \<in> set (show_nat n)"
    then obtain k where "k < 10" "CHR ''x'' = digit_char k" using show_nat_chars by blast
    then show False using digit_char_plain(4) [of k] by simp
  qed
  show "CHR ''X'' \<notin> set (show_nat n)"
  proof
    assume "CHR ''X'' \<in> set (show_nat n)"
    then obtain k where "k < 10" "CHR ''X'' = digit_char k" using show_nat_chars by blast
    then show False using digit_char_plain(5) [of k] by simp
  qed
qed

lemma show_nat_no_hex: "take 2 (show_nat n) \<noteq> ''0x''" "take 2 (show_nat n) \<noteq> ''0X''"
proof -
  show "take 2 (show_nat n) \<noteq> ''0x''"
  proof
    assume e: "take 2 (show_nat n) = ''0x''"
    have "CHR ''x'' \<in> set ''0x''" by simp
    then have "CHR ''x'' \<in> set (take 2 (show_nat n))" by (simp only: e)
    then have "CHR ''x'' \<in> set (show_nat n)" by (rule in_set_takeD)
    then show False using show_nat_no_x(1) by blast
  qed
  show "take 2 (show_nat n) \<noteq> ''0X''"
  proof
    assume e: "take 2 (show_nat n) = ''0X''"
    have "CHR ''X'' \<in> set ''0X''" by simp
    then have "CHR ''X'' \<in> set (take 2 (show_nat n))" by (simp only: e)
    then have "CHR ''X'' \<in> set (show_nat n)" by (rule in_set_takeD)
    then show False using show_nat_no_x(2) by blast
  qed
qed

lemma unsigned_value_show_nat: "unsigned_value (show_nat n) = Some n"
  by (simp add: unsigned_value_def show_nat_no_hex digits_value_show_nat)

lemma show_nat_head:
  "\<exists>c rest. show_nat n = c # rest \<and> \<not> is_space c \<and> c \<noteq> CHR ''-'' \<and> c \<noteq> CHR ''+''"
proof -
  obtain c rest where s: "show_nat n = c # rest"
    using show_nat_nonempty by (cases "show_nat n") auto
  then have "c \<in> set (show_nat n)" by simp
  then obtain k where "k < 10" "c = digit_char k" using show_nat_chars by blast
  with s digit_char_plain show ?thesis by blast
qed

lemma parseInt_string_show_nat: "parseInt_string (show_nat n) = Some (int n)"
proof -
  obtain c rest where s: "show_nat n = c # rest" and
    p: "\<not> is_space c" "c \<noteq> CHR ''-''" "c \<noteq> CHR ''+''"
    using show_nat_head by blast
  have "unsigned_value (c # rest) = Some n"
    using unsigned_value_show_nat [of n] by (simp add: s)
  then show ?thesis
    by (simp add: parseInt_string_def s p)
qed

lemma parseInt_string_minus: "parseInt_string (CHR ''-'' # show_nat n) = Some (- int n)"
  by (simp add: parseInt_string_def is_space_def unsigned_value_show_nat)

lemma parseInt_string_show_int: "parseInt_string (show_int n) = Some n"
  by (simp add: show_int_def parseInt_string_show_nat parseInt_string_minus)

lemma parseInt_number: "parseInt (JNum n) = Some n" "parseInt (JStr (show_int n)) = Some n"
  by (simp_all add: parseInt_def js_string_def parseInt_string_show_int)


lemma findProfile_parsed:
  "parseInt v = Some n \<Longrightarrow>
   findProfile profiles v = find (\<lambda>p. customer_profile_id p = JNum n) profiles"
proof -
  assume p: "parseInt v = Some n"
  have "strict_eq_parsed a (Some n) = (a = JNum n)" for a
    by (cases a) (auto simp: strict_eq_parsed_def)
  then show ?thesis by (simp add: findProfile_def p)
qed

lemma findProfile_number_only:
  assumes "findProfile profiles v = Some p"
  shows "\<exists>k. customer_profile_id p = JNum k"
proof -
  from assms have "strict_eq_parsed (customer_profile_id p) (parseInt v)"
    by (auto simp: findProfile_def find_Some_iff)
  then show ?thesis
    by (cases "customer_profile_id p") (auto simp: strict_eq_parsed_def)
qed

lemma show_int_123: "show_int 123 = ''123''"
  by (simp add: show_int_def show_nat_small show_nat_big digit_char_def)

text \<open>
  C4, as stated, at a profile that stores its identifier as the string \<^verbatim>\<open>"123"\<close>: neither
  the data point carrying the string nor the one carrying the number resolves to it.
\<close>

theorem C4_string_profile_counterexample:
  "customer_profile_id string_id_profile = JStr ''123''
   \<and> findProfile [string_id_profile] (JStr ''123'') = None
   \<and> findProfile [string_id_profile] (JNum 123) = None"
  by (simp add: findProfile_def strict_eq_parsed_def string_id_profile_def)

text \<open>
  C4, amended: the identifier of the data point is read through \<^verbatim>\<open>parseInt\<close>, so for
  every identifier \<open>n\<close> within the safe integers the string of its digits (\<^verbatim>\<open>"123"\<close>)
  and the number itself (123) resolve alike, to the first profile whose
  \<^verbatim>\<open>customer_profile_id\<close> is the number \<open>n\<close>; and every profile that is resolved stores
  its identifier as a number.
\<close>

theorem C4_profile_resolution:
  assumes "safe_integer n"
  shows "findProfile profiles (JStr (show_int n)) = findProfile profiles (JNum n)
         \<and> findProfile profiles (JNum n) = find (\<lambda>p. customer_profile_id p = JNum n) profiles
         \<and> (\<forall>v p. findProfile profiles v = Some p \<longrightarrow> (\<exists>k. customer_profile_id p = JNum k))"
  using findProfile_parsed [OF parseInt_number(1)] findProfile_parsed [OF parseInt_number(2)]
    findProfile_number_only
  by simp

theorem C4_profile_resolution_witness:
  "safe_integer 123
   \<and> findProfile [string_id_profile, sample_profile] (JStr ''123'') = Some sample_profile
   \<and> findProfile [string_id_profile, sample_profile] (JNum 123) = Some sample_profile"
proof -
  have s: "safe_integer 123"
    by (simp add: safe_integer_def MAX_SAFE_INTEGER_def)
  have f: "find (\<lambda>p. customer_profile_id p = JNum 123) [string_id_profile, sample_profile]
           = Some sample_profile"
    by (simp add: string_id_profile_def sample_profile_def)
  from C4_profile_resolution [OF s, of "[string_id_profile, sample_profile]"] f s
  show ?thesis by (simp add: show_int_123)
qed

subsection \<open>Grouping and routing\<close>

lemma group_keeps_acc:
  "groupDataPoints rt dps acc = Returns groups \<Longrightarrow> set acc \<subseteq> set groups"
proof (induction dps arbitrary: acc)
  case Nil
  then show ?case by simp
next
  case (Cons dp rest)
  show ?case
  proof (cases "keyed rt dp")
    case (Throws x)
    with Cons.prems show ?thesis by simp
  next
    case (Returns r)
    show ?thesis
    proof (cases r)
      case None
      with Returns Cons show ?thesis by simp
    next
      case (Some ke)
      obtain k' e' where ke: "ke = (k', e')" by (cases ke)
      show ?thesis
      proof (cases "has_key acc k'")
        case True
        with Returns Some ke Cons show ?thesis by simp
      next
        case False
        with Returns Some ke Cons.prems
        have "groupDataPoints rt rest (acc @ [(k', e')]) = Returns groups" by simp
        from Cons.IH [OF this] show ?thesis by simp
      qed
    qed
  qed
qed

lemma group_old_keys:
  "groupDataPoints rt dps acc = Returns groups \<Longrightarrow> (k, e) \<in> set groups \<Longrightarrow>
   k \<in> fst ` set acc \<Longrightarrow> (k, e) \<in> set acc"
proof (induction dps arbitrary: acc)
  case Nil
  then show ?case by simp
next
  case (Cons dp rest)
  show ?case
  proof (cases "keyed rt dp")
    case (Throws x)
    with Cons.prems show ?thesis by simp
  next
    case (Returns r)
    show ?thesis
    proof (cases r)
      case None
      with Returns Cons show ?thesis by simp
    next
      case (Some ke)
      obtain k' e' where ke: "ke = (k', e')" by (cases ke)
      show ?thesis
      proof (cases "has_key acc k'")
        case True
        with Returns Some ke Cons show ?thesis by simp
      next
        case False
        with Returns Some ke Cons.prems(1)
        have g: "groupDataPoints rt rest (acc @ [(k', e')]) = Returns groups" by simp
        from False have ne: "k' \<notin> fst ` set acc" by (simp add: has_key_def)
        from Cons.prems(3) have "k \<in> fst ` set (acc @ [(k', e')])" by auto
        from Cons.IH [OF g Cons.prems(2) this] have "(k, e) \<in> set (acc @ [(k', e')])" .
        with ne Cons.prems(3) show ?thesis by auto
      qed
    qed
  qed
qed

lemma group_distinct:
  "groupDataPoints rt dps acc = Returns groups \<Longrightarrow> distinct (map fst acc) \<Longrightarrow>
   distinct (map fst groups)"
proof (induction dps arbitrary: acc)
  case Nil
  then show ?case by simp
next
  case (Cons dp rest)
  show ?case
  proof (cases "keyed rt dp")
    case (Throws x)
    with Cons.prems show ?thesis by simp
  next
    case (Returns r)
    show ?thesis
    proof (cases r)
      case None
      with Returns Cons show ?thesis by simp
    next
      case (Some ke)
      obtain k' e' where ke: "ke = (k', e')" by (cases ke)
      show ?thesis
      proof (cases "has_key acc k'")
        case True
        with Returns Some ke Cons show ?thesis by simp
      next
        case False
        with Returns Some ke Cons.prems(1)
        have g: "groupDataPoints rt rest (acc @ [(k', e')]) = Returns groups" by simp
        from False have "k' \<notin> fst ` set acc" by (simp add: has_key_def)
        with Cons.prems(2) have "distinct (map fst (acc @ [(k', e')]))" by simp
        from Cons.IH [OF g this] show ?thesis .
      qed
    qed
  qed
qed

lemma group_new_not_inherited:
  "groupDataPoints rt dps acc = Returns groups \<Longrightarrow> (k, e) \<in> set groups \<Longrightarrow>
   (k, e) \<in> set acc \<or> k \<notin> set object_prototype_names"
proof (induction dps arbitrary: acc)
  case Nil
  then show ?case by simp
next
  case (Cons dp rest)
  show ?case
  proof (cases "keyed rt dp")
    case (Throws x)
    with Cons.prems show ?thesis by simp
  next
    case (Returns r)
    show ?thesis
    proof (cases r)
      case None
      with Returns Cons show ?thesis by simp
    next
      case (Some ke)
      obtain k' e' where ke: "ke = (k', e')" by (cases ke)
      show ?thesis
      proof (cases "has_key acc k'")
        case True
        with Returns Some ke Cons show ?thesis by simp
      next
        case False
        with Returns Some ke Cons.prems(1)
        have g: "groupDataPoints rt rest (acc @ [(k', e')]) = Returns groups" by simp
        from False have "k' \<notin> set object_prototype_names" by (simp add: has_key_def)
        with Cons.IH [OF g Cons.prems(2)] show ?thesis by auto
      qed
    qed
  qed
qed

lemma keyed_dataPoint: "keyed rt dp = Returns (Some (k, e)) \<Longrightarrow> dataPoint e = dp"
  by (auto simp: keyed_def split: if_splits option.splits)

lemma group_first_wins:
  "groupDataPoints rt dps acc = Returns groups \<Longrightarrow> (k, e) \<in> set groups \<Longrightarrow>
   k \<notin> fst ` set acc \<Longrightarrow> find (\<lambda>dp. key_of rt dp = Some k) dps = Some (dataPoint e)"
proof (induction dps arbitrary: acc)
  case Nil
  then show ?case by force
next
  case (Cons dp rest)
  show ?case
  proof (cases "keyed rt dp")
    case (Throws x)
    with Cons.prems show ?thesis by simp
  next
    case (Returns r)
    show ?thesis
    proof (cases r)
      case None
      with Returns have "key_of rt dp = None" by (simp add: key_of_def)
      with None Returns Cons show ?thesis by simp
    next
      case (Some ke)
      obtain k' e' where ke: "ke = (k', e')" by (cases ke)
      with Returns Some have kd: "keyed rt dp = Returns (Some (k', e'))" by simp
      then have ko: "key_of rt dp = Some k'" by (simp add: key_of_def)
      show ?thesis
      proof (cases "has_key acc k'")
        case True
        with kd Cons.prems(1) have g: "groupDataPoints rt rest acc = Returns groups" by simp
        have "k' \<noteq> k"
        proof
          assume "k' = k"
          with True Cons.prems(3) have "k \<in> set object_prototype_names"
            by (simp add: has_key_def)
          moreover from group_new_not_inherited [OF g Cons.prems(2)] Cons.prems(3)
          have "k \<notin> set object_prototype_names" by force
          ultimately show False by simp
        qed
        with ko Cons.IH [OF g Cons.prems(2,3)] show ?thesis by simp
      next
        case False
        with kd Cons.prems(1)
        have g: "groupDataPoints rt rest (acc @ [(k', e')]) = Returns groups" by simp
        show ?thesis
        proof (cases "k' = k")
          case True
          then have "k \<in> fst ` set (acc @ [(k', e')])" by force
          from group_old_keys [OF g Cons.prems(2) this] Cons.prems(3) True
          have "e = e'" by force
          with keyed_dataPoint [OF kd] ko True show ?thesis by simp
        next
          case False
          with Cons.prems(3) have "k \<notin> fst ` set (acc @ [(k', e')])" by auto
          from Cons.IH [OF g Cons.prems(2) this] ko False show ?thesis by simp
        qed
      qed
    qed
  qed
qed

lemma group_complete:
  "groupDataPoints rt dps acc = Returns groups \<Longrightarrow> dp \<in> set dps \<Longrightarrow>
   key_of rt dp = Some k \<Longrightarrow> k \<notin> set object_prototype_names \<Longrightarrow> k \<in> fst ` set groups"
proof (induction dps arbitrary: acc)
  case Nil
  then show ?case by simp
next
  case (Cons d rest)
  show ?case
  proof (cases "keyed rt d")
    case (Throws x)
    with Cons.prems show ?thesis by simp
  next
    case (Returns r)
    show ?thesis
    proof (cases r)
      case None
      with Returns have "key_of rt d = None" by (simp add: key_of_def)
      with Cons.prems have "dp \<in> set rest" by auto
      with None Returns Cons show ?thesis by simp
    next
      case (Some ke)
      obtain k' e' where ke: "ke = (k', e')" by (cases ke)
      with Returns Some have kd: "keyed rt d = Returns (Some (k', e'))" by simp
      then have ko: "key_of rt d = Some k'" by (simp add: key_of_def)
      show ?thesis
      proof (cases "has_key acc k'")
        case True
        with kd Cons.prems(1) have g: "groupDataPoints rt rest acc = Returns groups" by simp
        show ?thesis
        proof (cases "dp = d")
          case True
          with ko Cons.prems(3) have "k' = k" by simp
          with \<open>has_key acc k'\<close> Cons.prems(4) have "k \<in> fst ` set acc"
            by (simp add: has_key_def)
          with group_keeps_acc [OF g] show ?thesis by auto
        next
          case False
          with Cons.prems(2) have "dp \<in> set rest" by simp
          from Cons.IH [OF g this Cons.prems(3,4)] show ?thesis .
        qed
      next
        case False
        with kd Cons.prems(1)
        have g: "groupDataPoints rt rest (acc @ [(k', e')]) = Returns groups" by simp
        show ?thesis
        proof (cases "dp = d")
          case True
          with ko Cons.prems(3) have "k' = k" by simp
          then have "(k, e') \<in> set (acc @ [(k', e')])" by simp
          with group_keeps_acc [OF g] show ?thesis by force
        next
          case False
          with Cons.prems(2) have "dp \<in> set rest" by simp
          from Cons.IH [OF g this Cons.prems(3,4)] show ?thesis .
        qed
      qed
    qed
  qed
qed

lemma route_keyed_keys:
  "map fst (route_keyed rt profiles groups)
   = map fst (filter (\<lambda>(k, e). route_entry rt profiles e \<noteq> None) groups)"
  by (induction groups) (auto simp: route_keyed_def List.map_filter_simps split: option.splits)

lemma route_keyed_rows:
  "route rt profiles groups = map snd (route_keyed rt profiles groups)"
  by (induction groups)
     (auto simp: route_def route_keyed_def List.map_filter_simps split: option.splits)


lemma sample_keyed:
  "keyed sample_runtime twitter_example_datapoint
     = Returns (Some (''123_2024-01-15'', sample_entry))"
  "keyed sample_runtime empty_metrics_datapoint
     = Returns (Some (''123_2024-01-15'',
         \<lparr>profileId = JNum 123, date = ''2024-01-15'', dataPoint = empty_metrics_datapoint\<rparr>))"
proof -
  have c: "customerProfileId twitter_example_datapoint = JNum 123"
    "customerProfileId empty_metrics_datapoint = JNum 123"
    by (simp_all add: customerProfileId_def twitter_example_datapoint_def
        empty_metrics_datapoint_def sample_dims_def)
  show "keyed sample_runtime twitter_example_datapoint
          = Returns (Some (''123_2024-01-15'', sample_entry))"
    by (simp add: keyed_def c truthy_def sample_reportingPeriod js_string_def show_int_123
        sample_entry_def)
  show "keyed sample_runtime empty_metrics_datapoint
     = Returns (Some (''123_2024-01-15'',
         \<lparr>profileId = JNum 123, date = ''2024-01-15'', dataPoint = empty_metrics_datapoint\<rparr>))"
    by (simp add: keyed_def c truthy_def sample_reportingPeriod js_string_def show_int_123)
qed

lemma sample_groups:
  "groupDataPoints sample_runtime [twitter_example_datapoint, empty_metrics_datapoint] []
     = Returns [(''123_2024-01-15'', sample_entry)]"
  by (simp add: sample_keyed has_key_def object_prototype_names_def)

lemma sample_route_entry: "route_entry sample_runtime [sample_profile] sample_entry \<noteq> None"
proof -
  have f: "findProfile [sample_profile] (profileId sample_entry) = Some sample_profile"
    using findProfile_parsed [OF parseInt_number(1), of "[sample_profile]" 123]
    by (simp add: sample_entry_def sample_profile_def)
  have d: "dispatch (network_type sample_profile) = Some Twitter"
    by (simp add: sample_profile_def dispatch_def formatter_of_def networkType_def
        networkTypeMapping_def networkModules_def)
  have m: "metrics twitter_example_datapoint = Some twitter_example_metrics"
    "dimensions twitter_example_datapoint = Some sample_dims"
    by (simp_all add: twitter_example_datapoint_def)
  have "formatAnalyticsData Twitter sample_runtime (dataPoint sample_entry) (Some sample_profile)
        \<noteq> None"
    by (simp add: formatAnalyticsData_def twitter_formatAnalyticsData_def sample_entry_def m
        sample_reportingPeriod)
  with f d show ?thesis by (auto simp: route_entry_def)
qed

lemma sample_padded_keyed:
  "keyed sample_runtime padded_id_datapoint = Returns (Some (''0123_2024-01-15'', padded_entry))"
proof -
  have c: "customerProfileId padded_id_datapoint = JStr ''0123''"
    by (simp add: customerProfileId_def padded_id_datapoint_def)
  have r: "reportingPeriod padded_id_datapoint = Some ''2024-01-15''"
    by (simp add: reportingPeriod_def padded_id_datapoint_def sample_dims_def)
  show ?thesis
    by (simp add: keyed_def c r truthy_def sample_reportingPeriod(3) js_string_def
        padded_entry_def)
qed

lemma sample_bad_period_keyed:
  "keyed sample_runtime bad_period_datapoint = Throws ''Invalid time value''"
proof -
  have c: "customerProfileId bad_period_datapoint = JNum 123"
    by (simp add: customerProfileId_def bad_period_datapoint_def sample_dims_def)
  have r: "reportingPeriod bad_period_datapoint = Some ''n/a''"
    by (simp add: reportingPeriod_def bad_period_datapoint_def sample_dims_def)
  show ?thesis
    by (simp add: keyed_def c r truthy_def sample_runtime_def)
qed

lemma padded_route_entry: "route_entry sample_runtime [sample_profile] padded_entry \<noteq> None"
proof -
  have p: "parseInt (JStr ''0123'') = Some 123"
    by (simp add: parseInt_def js_string_def parseInt_string_def is_space_def
        unsigned_value_def digits_value_def digit_of_def)
  have f: "findProfile [sample_profile] (profileId padded_entry) = Some sample_profile"
    using findProfile_parsed [OF p, of "[sample_profile]"]
    by (simp add: padded_entry_def sample_profile_def)
  have d: "dispatch (network_type sample_profile) = Some Twitter"
    by (simp add: sample_profile_def dispatch_def formatter_of_def networkType_def
        networkTypeMapping_def networkModules_def)
  have m: "metrics padded_id_datapoint = Some twitter_example_metrics"
    "dimensions padded_id_datapoint
       = Some (sample_dims\<lparr>dim_customer_profile_id := JStr ''0123''\<rparr>)"
    by (simp_all add: padded_id_datapoint_def)
  have r: "reportingPeriod padded_id_datapoint = Some ''2024-01-15''"
    by (simp add: reportingPeriod_def padded_id_datapoint_def sample_dims_def)
  have "formatAnalyticsData Twitter sample_runtime (dataPoint padded_entry) (Some sample_profile)
        \<noteq> None"
    by (simp add: formatAnalyticsData_def twitter_formatAnalyticsData_def padded_entry_def m r
        sample_reportingPeriod(3))
  with f d show ?thesis by (auto simp: route_entry_def)
qed

text \<open>
  The grouping loop completes when no data point makes its body throw, and is left by
  the first data point that does.
\<close>

lemma group_returns:
  "\<forall>dp\<in>set dps. \<forall>x. keyed rt dp \<noteq> Throws x \<Longrightarrow>
   \<exists>groups. groupDataPoints rt dps acc = Returns groups"
proof (induction dps arbitrary: acc)
  case Nil
  then show ?case by simp
next
  case (Cons dp rest)
  from Cons.prems have rest: "\<forall>d\<in>set rest. \<forall>x. keyed rt d \<noteq> Throws x" by simp
  show ?case
  proof (cases "keyed rt dp")
    case (Throws x)
    with Cons.prems show ?thesis by simp
  next
    case (Returns r)
    show ?thesis
    proof (cases r)
      case None
      with Returns Cons.IH [OF rest, of acc] show ?thesis by simp
    next
      case (Some ke)
      obtain k' e' where ke: "ke = (k', e')" by (cases ke)
      from Cons.IH [OF rest, of acc] Cons.IH [OF rest, of "acc @ [(k', e')]"]
      show ?thesis by (simp add: Returns Some ke)
    qed
  qed
qed

lemma group_throws:
  "dp \<in> set dps \<Longrightarrow> keyed rt dp = Throws x \<Longrightarrow> \<exists>y. groupDataPoints rt dps acc = Throws y"
proof (induction dps arbitrary: acc)
  case Nil
  then show ?case by simp
next
  case (Cons d rest)
  show ?case
  proof (cases "keyed rt d")
    case (Throws y)
    then show ?thesis by simp
  next
    case (Returns r)
    with Cons.prems have in_rest: "dp \<in> set rest" by auto
    show ?thesis
    proof (cases r)
      case None
      with Returns Cons.IH [OF in_rest Cons.prems(2), of acc] show ?thesis by simp
    next
      case (Some ke)
      obtain k' e' where ke: "ke = (k', e')" by (cases ke)
      from Cons.IH [OF in_rest Cons.prems(2), of acc]
        Cons.IH [OF in_rest Cons.prems(2), of "acc @ [(k', e')]"]
      show ?thesis by (simp add: Returns Some ke)
    qed
  qed
qed

text \<open>A key is the text of the identifier, an underscore and the day.\<close>

lemma keyed_key:
  "keyed rt dp = Returns (Some (k, e)) \<Longrightarrow> k = js_string (profileId e) @ ''_'' @ date e"
  by (auto simp: keyed_def split: if_splits option.splits)

lemma group_key_form:
  "groupDataPoints rt dps acc = Returns groups \<Longrightarrow> (k, e) \<in> set groups \<Longrightarrow>
   (k, e) \<in> set acc \<or> k = js_string (profileId e) @ ''_'' @ date e"
proof (induction dps arbitrary: acc)
  case Nil
  then show ?case by simp
next
  case (Cons dp rest)
  show ?case
  proof (cases "keyed rt dp")
    case (Throws x)
    with Cons.prems show ?thesis by simp
  next
    case (Returns r)
    show ?thesis
    proof (cases r)
      case None
      with Returns Cons show ?thesis by simp
    next
      case (Some ke)
      obtain k' e' where ke: "ke = (k', e')" by (cases ke)
      with Returns Some have kd: "keyed rt dp = Returns (Some (k', e'))" by simp
      show ?thesis
      proof (cases "has_key acc k'")
        case True
        with kd Cons show ?thesis by simp
      next
        case False
        with kd Cons.prems(1)
        have g: "groupDataPoints rt rest (acc @ [(k', e')]) = Returns groups" by simp
        from Cons.IH [OF g Cons.prems(2)] keyed_key [OF kd] show ?thesis by auto
      qed
    qed
  qed
qed

lemma canonical_same_text:
  "canonical_id a \<Longrightarrow> canonical_id b \<Longrightarrow> parseInt a = parseInt b \<Longrightarrow>
   js_string a = js_string b"
  by (auto simp: canonical_id_def split: option.splits)

text \<open>Two identifiers that resolve to one profile read as the same number.\<close>

lemma same_profile_same_number:
  assumes "findProfile profiles a = Some p" and "findProfile profiles b = Some p"
  shows "parseInt a = parseInt b"
proof -
  from assms have "strict_eq_parsed (customer_profile_id p) (parseInt a)"
    "strict_eq_parsed (customer_profile_id p) (parseInt b)"
    by (auto simp: findProfile_def find_Some_iff)
  then show ?thesis
    by (cases "customer_profile_id p"; cases "parseInt a"; cases "parseInt b")
       (auto simp: strict_eq_parsed_def)
qed

subsection \<open>The duplicate check and the unit of work\<close>

lemma scan_reads_only:
  "ev \<in> set (snd (scanSheets w k sheets)) \<Longrightarrow> \<exists>n. ev = ReadColumnA n"
proof (induction sheets)
  case Nil
  then show ?case by simp
next
  case (Cons s rest)
  then show ?case
    by (auto split: outcome.splits option.splits if_splits prod.splits)
qed

lemma scan_true:
  assumes "\<forall>b\<in>set before. \<exists>v. getSheetValues w b = Returns v"
    and "getSheetValues w s = Returns (Some rows)"
    and "1 < length rows" and "monthExists rows k"
  shows "fst (scanSheets w k (before @ s # after)) = Returns True"
  using assms(1)
proof (induction before)
  case Nil
  with assms(2-4) show ?case by simp
next
  case (Cons b before)
  then obtain v where v: "getSheetValues w b = Returns v" by auto
  from Cons have ih: "fst (scanSheets w k (before @ s # after)) = Returns True" by simp
  show ?case
  proof (cases v)
    case None
    with v ih show ?thesis by (auto split: prod.splits)
  next
    case (Some r)
    with v ih show ?thesis by (auto split: prod.splits)
  qed
qed

lemma fetches_reads: "fetches (snd (scanSheets w k sheets)) = 0"
proof -
  have "\<forall>ev\<in>set (snd (scanSheets w k sheets)). ev \<noteq> FetchAnalytics"
    using scan_reads_only by fastforce
  then show ?thesis by (simp add: fetches_def filter_empty_conv)
qed

lemma appended_reads: "appendedRows (snd (scanSheets w k sheets)) = []"
proof -
  have "\<forall>ev\<in>set (snd (scanSheets w k sheets)). (case ev of AppendRows pf rows \<Rightarrow> rows | _ \<Rightarrow> []) = []"
    using scan_reads_only by fastforce
  then show ?thesis by (simp add: appendedRows_def)
qed

lemma unit_skipped:
  assumes "clients_ok w" and "openSpreadsheet w = Returns (Some sid)"
    and "createSheets w (groupProfilesByNetworkType w) [] = Returns createdSheets"
    and "existingData w (cfg_startDate cfg) createdSheets"
  shows "processGroupAnalytics w rt gid gname profiles cfg
         = ([folderResult gid gname profiles cfg sid ''Already updated for this month''],
            snd (scanSheets w (take 7 (cfg_startDate cfg)) createdSheets))"
  using assms by (simp add: processGroupAnalytics_def folderBody_def)

lemma unit_passed:
  assumes "clients_ok w" and "openSpreadsheet w = Returns (Some sid)"
    and "createSheets w (groupProfilesByNetworkType w) [] = Returns createdSheets"
    and "\<not> existingData w (cfg_startDate cfg) createdSheets"
  shows "processGroupAnalytics w rt gid gname profiles cfg
         = ((case fst (fetchAndWrite w rt gid gname profiles cfg sid createdSheets) of
               Throws m \<Rightarrow> [errorResult w gid gname profiles m]
             | Returns rs \<Rightarrow> rs),
            snd (scanSheets w (take 7 (cfg_startDate cfg)) createdSheets)
              @ snd (fetchAndWrite w rt gid gname profiles cfg sid createdSheets))"
  using assms
  by (simp add: processGroupAnalytics_def folderBody_def split: prod.splits outcome.splits)

lemma fetches_updateEvents: "fetches (updateEvents w routed pfs) = 0"
  by (induction pfs) (auto simp: fetches_def updateEvents_def split: outcome.splits)

lemma fetchAndWrite_fetches:
  "fetches (snd (fetchAndWrite w rt gid gname profiles cfg sid createdSheets)) = 1"
proof -
  have "fetches (FetchAnalytics # updateEvents w routed pfs) = 1" for routed pfs
    using fetches_updateEvents [of w routed pfs] by (simp add: fetches_def)
  moreover have "fetches [FetchAnalytics] = 1" by (simp add: fetches_def)
  ultimately show ?thesis
    by (auto simp: fetchAndWrite_def Let_def split: outcome.splits option.splits)
qed

lemma fetches_append: "fetches (xs @ ys) = fetches xs + fetches ys"
  by (simp add: fetches_def)

lemma appendedRows_append: "appendedRows (xs @ ys) = appendedRows xs @ appendedRows ys"
  by (simp add: appendedRows_def)

lemma appendedRows_updateEvents:
  "appendedRows (updateEvents w routed pfs)
   = concat (map (rowsByNetwork routed)
       (filter (\<lambda>pf. \<exists>u. updateSheet w pf = Returns u) pfs))"
  by (induction pfs) (auto simp: appendedRows_def updateEvents_def split: outcome.splits)

lemma fetchAndWrite_appended:
  assumes "getAnalyticsData w = Returns (Some dps)" and "dps \<noteq> []"
    and "groupDataPoints rt dps [] = Returns groups"
  shows "appendedRows (snd (fetchAndWrite w rt gid gname profiles cfg sid createdSheets))
         = concat (map (rowsByNetwork (route rt profiles groups))
             (filter (\<lambda>pf. \<exists>u. updateSheet w pf = Returns u)
                (sheetsToUpdate (route rt profiles groups) createdSheets)))"
proof -
  have "appendedRows (FetchAnalytics # evs) = appendedRows evs" for evs
    by (simp add: appendedRows_def)
  then show ?thesis
    using assms appendedRows_updateEvents
    by (auto simp: fetchAndWrite_def Let_def split: outcome.splits option.splits)
qed


lemma sample_route:
  "\<exists>row. route sample_runtime [sample_profile] [(''123_2024-01-15'', sample_entry)]
           = [(Twitter, row)]"
proof -
  have d: "dispatch (network_type sample_profile) = Some Twitter"
    by (simp add: sample_profile_def dispatch_def formatter_of_def networkType_def
        networkTypeMapping_def networkModules_def)
  have f: "findProfile [sample_profile] (profileId sample_entry) = Some sample_profile"
    using findProfile_parsed [OF parseInt_number(1), of "[sample_profile]" 123]
    by (simp add: sample_entry_def sample_profile_def)
  from sample_route_entry obtain pr where "route_entry sample_runtime [sample_profile] sample_entry = Some pr"
    by blast
  moreover from this f d have "fst pr = Twitter"
    by (auto simp: route_entry_def split: option.splits)
  ultimately have "route_entry sample_runtime [sample_profile] sample_entry = Some (Twitter, snd pr)"
    by (cases pr) simp
  then show ?thesis
    by (simp add: route_def List.map_filter_simps)
qed

lemma sheetNameOf_twitter: "sheetNameOf (platform_name Twitter) = ''Twitter''"
  "sheetNameOf ''twitter'' = ''Twitter''" "sheetNameOf ''instagram'' = ''Instagram''"
  by (simp_all add: sheetNameOf_def platform_name_def upper_char_def)

lemma sample_fetchAndWrite:
  assumes "getAnalyticsData w = Returns (Some [twitter_example_datapoint, empty_metrics_datapoint])"
    and "updateSheet w = (\<lambda>pf. Returns ())" and "finalTitleUpdate w = Returns ()"
    and "''Twitter'' \<in> set createdSheets"
  shows "fst (fetchAndWrite w sample_runtime gid gname [sample_profile] cfg sid createdSheets)
           = Returns [folderResult gid gname [sample_profile] cfg sid ''Completed'']"
    and "length (appendedRows
           (snd (fetchAndWrite w sample_runtime gid gname [sample_profile] cfg sid createdSheets)))
         = 1"
proof -
  obtain row where r: "route sample_runtime [sample_profile] [(''123_2024-01-15'', sample_entry)]
                       = [(Twitter, row)]"
    using sample_route by blast
  have rows: "rowsByNetwork [(Twitter, row)] Twitter = [row]"
    "rowsByNetwork [(Twitter, row)] Instagram = []" "rowsByNetwork [(Twitter, row)] Youtube = []"
    "rowsByNetwork [(Twitter, row)] Linkedin = []" "rowsByNetwork [(Twitter, row)] Facebook = []"
    by (simp_all add: rowsByNetwork_def)
  have pfs: "sheetsToUpdate [(Twitter, row)] createdSheets = [Twitter]"
    using assms(4) by (simp add: sheetsToUpdate_def rows sheetNameOf_twitter)
  have rej: "firstRejection w [Twitter] = None"
    by (simp add: firstRejection_def assms(2) List.map_filter_simps)
  have ev: "updateEvents w [(Twitter, row)] [Twitter] = [AppendRows Twitter [row], MonthlySummary Twitter]"
    by (simp add: updateEvents_def assms(2) rows)
  show "fst (fetchAndWrite w sample_runtime gid gname [sample_profile] cfg sid createdSheets)
           = Returns [folderResult gid gname [sample_profile] cfg sid ''Completed'']"
    by (simp add: fetchAndWrite_def assms(1,3) sample_groups r pfs rej
        del: groupDataPoints.simps)
  show "length (appendedRows
           (snd (fetchAndWrite w sample_runtime gid gname [sample_profile] cfg sid createdSheets)))
         = 1"
    by (simp add: fetchAndWrite_def assms(1,3) sample_groups r pfs rej ev appendedRows_def
        del: groupDataPoints.simps)
qed

lemma synced_prelude:
  "clients_ok synced_world" "openSpreadsheet synced_world = Returns (Some ''sheet-1'')"
  "createSheets synced_world (groupProfilesByNetworkType synced_world) [] = Returns [''Twitter'']"
  by (simp_all add: synced_world_def openSpreadsheet_def sheetNameOf_twitter networkModules_def)

lemma single_row_prelude:
  "clients_ok single_row_world" "openSpreadsheet single_row_world = Returns (Some ''sheet-1'')"
  "createSheets single_row_world (groupProfilesByNetworkType single_row_world) []
     = Returns [''Twitter'']"
  "getSheetValues single_row_world ''Twitter'' = Returns (Some [[''2024-01-15'']])"
  "getAnalyticsData single_row_world
     = Returns (Some [twitter_example_datapoint, empty_metrics_datapoint])"
  "updateSheet single_row_world = (\<lambda>pf. Returns ())"
  "finalTitleUpdate single_row_world = Returns ()"
  by (simp_all add: single_row_world_def synced_world_def openSpreadsheet_def sheetNameOf_twitter
      networkModules_def)

lemma january_key: "take 7 (cfg_startDate sample_config) = ''2024-01''"
  by (simp add: sample_config_def)

lemma january_present:
  "monthExists [[''2024-01-15'']] ''2024-01''"
  "monthExists [[''Date''], [''2024-01-15'']] ''2024-01''"
  by (simp_all add: monthExists_def)

lemma read_failure_prelude:
  "clients_ok read_failure_world"
  "openSpreadsheet read_failure_world = Returns (Some ''sheet-1'')"
  "createSheets read_failure_world (groupProfilesByNetworkType read_failure_world) []
     = Returns [''Instagram'', ''Twitter'']"
  "getSheetValues read_failure_world ''Twitter'' = Returns (Some [[''Date''], [''2024-01-15'']])"
  "getAnalyticsData read_failure_world
     = Returns (Some [twitter_example_datapoint, empty_metrics_datapoint])"
  "updateSheet read_failure_world = (\<lambda>pf. Returns ())"
  "finalTitleUpdate read_failure_world = Returns ()"
  "fst (scanSheets read_failure_world ''2024-01'' [''Instagram'', ''Twitter''])
     = Throws ''Quota exceeded''"
  by (simp_all add: read_failure_world_def synced_world_def openSpreadsheet_def
      sheetNameOf_twitter networkModules_def)

lemma read_failure_unit:
  "\<not> existingData read_failure_world (cfg_startDate sample_config) [''Instagram'', ''Twitter'']"
  "fetches (snd (processGroupAnalytics read_failure_world sample_runtime ''g1'' ''Group''
     [sample_profile] sample_config)) = 1"
  "length (appendedRows (snd (processGroupAnalytics read_failure_world sample_runtime ''g1''
     ''Group'' [sample_profile] sample_config))) = 1"
proof -
  show ne: "\<not> existingData read_failure_world (cfg_startDate sample_config)
              [''Instagram'', ''Twitter'']"
    by (simp only: existingData_def january_key read_failure_prelude(8) outcome.case simp_thms)
  note u = unit_passed [OF read_failure_prelude(1-3) ne, of sample_runtime "''g1''" "''Group''"
      "[sample_profile]"]
  have "''Twitter'' \<in> set [''Instagram'', ''Twitter'']" by simp
  note f = sample_fetchAndWrite(2) [OF read_failure_prelude(5-7) this, of "''g1''" "''Group''"
      sample_config "''sheet-1''"]
  show "fetches (snd (processGroupAnalytics read_failure_world sample_runtime ''g1'' ''Group''
     [sample_profile] sample_config)) = 1"
    by (simp add: u fetches_append fetches_reads fetchAndWrite_fetches del: scanSheets.simps)
  show "length (appendedRows (snd (processGroupAnalytics read_failure_world sample_runtime ''g1''
     ''Group'' [sample_profile] sample_config))) = 1"
    using f by (simp add: u appendedRows_append appended_reads del: scanSheets.simps)
qed

text \<open>
  C1, as stated, at two destinations. In the first, column A of the Twitter sheet is the
  single cell \<^verbatim>\<open>2024-01-15\<close>: the column holds a date of January 2024, yet the unit for
  January 2024 is not skipped; the fetch is made, one row is appended and the status is
  \<^verbatim>\<open>Completed\<close>. In the second, the Twitter sheet holds the header and a row of January
  2024, but the Instagram sheet is read first and the read throws: again the fetch is
  made and one row is appended.
\<close>

theorem C1_not_skipped_counterexample:
  "getSheetValues single_row_world ''Twitter'' = Returns (Some [[''2024-01-15'']])
   \<and> monthExists [[''2024-01-15'']] (take 7 (cfg_startDate sample_config))
   \<and> map status (fst (processGroupAnalytics single_row_world sample_runtime ''g1'' ''Group''
        [sample_profile] sample_config)) = [''Completed'']
   \<and> fetches (snd (processGroupAnalytics single_row_world sample_runtime ''g1'' ''Group''
        [sample_profile] sample_config)) = 1
   \<and> length (appendedRows (snd (processGroupAnalytics single_row_world sample_runtime ''g1''
        ''Group'' [sample_profile] sample_config))) = 1
   \<and> getSheetValues read_failure_world ''Twitter''
       = Returns (Some [[''Date''], [''2024-01-15'']])
   \<and> monthExists [[''Date''], [''2024-01-15'']] (take 7 (cfg_startDate sample_config))
   \<and> fetches (snd (processGroupAnalytics read_failure_world sample_runtime ''g1'' ''Group''
        [sample_profile] sample_config)) = 1
   \<and> length (appendedRows (snd (processGroupAnalytics read_failure_world sample_runtime ''g1''
        ''Group'' [sample_profile] sample_config))) = 1"
proof -
  have e: "\<not> existingData single_row_world (cfg_startDate sample_config) [''Twitter'']"
    by (simp add: existingData_def january_key single_row_prelude)
  note u = unit_passed [OF single_row_prelude(1-3) e, of sample_runtime "''g1''" "''Group''"
      "[sample_profile]"]
  note f = sample_fetchAndWrite [OF single_row_prelude(5-7), of "[''Twitter'']" "''g1''" "''Group''"
      sample_config "''sheet-1''"]
  have s: "map status (fst (processGroupAnalytics single_row_world sample_runtime ''g1'' ''Group''
        [sample_profile] sample_config)) = [''Completed'']"
    using f(1) by (simp add: u folderResult_def)
  have n: "fetches (snd (processGroupAnalytics single_row_world sample_runtime ''g1'' ''Group''
        [sample_profile] sample_config)) = 1"
    by (simp add: u fetches_append fetches_reads fetchAndWrite_fetches del: scanSheets.simps)
  have a: "length (appendedRows (snd (processGroupAnalytics single_row_world sample_runtime ''g1''
        ''Group'' [sample_profile] sample_config))) = 1"
    using f(2) by (simp add: u appendedRows_append appended_reads del: scanSheets.simps)
  from s n a read_failure_unit(2,3) show ?thesis
    by (simp add: single_row_prelude(4) read_failure_prelude(4) january_key january_present)
qed

text \<open>
  C1, amended: if a created sheet whose column-A read returns more than one row has, in
  that column, a non-empty cell that starts with the month key (the first seven
  characters of the window's start date), and the read of every sheet created before it
  returns, then the unit yields the single result with status
  \<^verbatim>\<open>Already updated for this month\<close>, makes no analytics fetch and appends no row: all it
  does to the outside is read column A. A second run against a destination that holds
  the month is such a unit.
\<close>

theorem C1_month_present_skips_unit:
  assumes "clients_ok w" and "openSpreadsheet w = Returns (Some sid)"
    and "createSheets w (groupProfilesByNetworkType w) [] = Returns (before @ s # after)"
    and "\<forall>b\<in>set before. \<exists>v. getSheetValues w b = Returns v"
    and "getSheetValues w s = Returns (Some rows)"
    and "1 < length rows"
    and "monthExists rows (take 7 (cfg_startDate cfg))"
  shows "fst (processGroupAnalytics w rt gid gname profiles cfg)
           = [folderResult gid gname profiles cfg sid ''Already updated for this month'']
         \<and> status (folderResult gid gname profiles cfg sid ''Already updated for this month'')
             = ''Already updated for this month''
         \<and> fetches (snd (processGroupAnalytics w rt gid gname profiles cfg)) = 0
         \<and> appendedRows (snd (processGroupAnalytics w rt gid gname profiles cfg)) = []
         \<and> (\<forall>ev\<in>set (snd (processGroupAnalytics w rt gid gname profiles cfg)).
               \<exists>n. ev = ReadColumnA n)"
proof -
  have "fst (scanSheets w (take 7 (cfg_startDate cfg)) (before @ s # after)) = Returns True"
    by (rule scan_true [OF assms(4-7)])
  then have e: "existingData w (cfg_startDate cfg) (before @ s # after)"
    by (simp add: existingData_def)
  note u = unit_skipped [OF assms(1-3) e, of rt gid gname profiles]
  show ?thesis
    using scan_reads_only [of _ w "take 7 (cfg_startDate cfg)" "before @ s # after"]
    by (simp add: u fetches_reads appended_reads folderResult_def)
qed

theorem C1_month_present_skips_unit_witness:
  "getSheetValues synced_world ''Twitter'' = Returns (Some [[''Date''], [''2024-01-15'']])
   \<and> monthExists [[''Date''], [''2024-01-15'']] (take 7 (cfg_startDate sample_config))
   \<and> map status (fst (processGroupAnalytics synced_world sample_runtime ''g1'' ''Group''
        [sample_profile] sample_config)) = [''Already updated for this month'']
   \<and> fetches (snd (processGroupAnalytics synced_world sample_runtime ''g1'' ''Group''
        [sample_profile] sample_config)) = 0
   \<and> appendedRows (snd (processGroupAnalytics synced_world sample_runtime ''g1'' ''Group''
        [sample_profile] sample_config)) = []"
proof -
  have c: "createSheets synced_world (groupProfilesByNetworkType synced_world) []
           = Returns ([] @ ''Twitter'' # [])"
    by (simp add: synced_prelude)
  have b: "\<forall>b\<in>set []. \<exists>v. getSheetValues synced_world b = Returns v" by simp
  have g: "getSheetValues synced_world ''Twitter'' = Returns (Some [[''Date''], [''2024-01-15'']])"
    by (simp add: synced_world_def)
  have l: "1 < length [[''Date''], [''2024-01-15'']]" by simp
  have m: "monthExists [[''Date''], [''2024-01-15'']] (take 7 (cfg_startDate sample_config))"
    by (simp add: january_key january_present)
  from C1_month_present_skips_unit [OF synced_prelude(1,2) c b g l m,
      of sample_runtime "''g1''" "''Group''" "[sample_profile]"] g m
  show ?thesis by (simp add: folderResult_def)
qed

subsection \<open>Results of a unit of work\<close>

lemma fetchAndWrite_results:
  assumes "fst (fetchAndWrite w rt gid gname profiles cfg sid createdSheets) = Returns rs"
  shows "rs = [folderResult gid gname profiles cfg sid ''No data'']
         \<or> rs = [folderResult gid gname profiles cfg sid ''Completed'']"
  using assms
  by (auto simp: fetchAndWrite_def Let_def split: outcome.splits option.splits if_splits)

lemma folderBody_results:
  assumes "folderBody w rt gid gname profiles cfg = (Returns rs, evs)"
  shows "(rs = [] \<and> clients_ok w \<and> openSpreadsheet w = Returns None)
         \<or> (\<exists>sid st. openSpreadsheet w = Returns (Some sid)
               \<and> st \<in> {''Already updated for this month'', ''No data'', ''Completed''}
               \<and> rs = [folderResult gid gname profiles cfg sid st])"
proof (cases "clients_ok w")
  case False
  with assms show ?thesis by (simp add: folderBody_def)
next
  case True
  show ?thesis
  proof (cases "openSpreadsheet w")
    case (Throws e)
    with True assms show ?thesis by (simp add: folderBody_def)
  next
    case (Returns o1)
    show ?thesis
    proof (cases o1)
      case None
      with True Returns assms show ?thesis by (simp add: folderBody_def)
    next
      case (Some sid)
      show ?thesis
      proof (cases "createSheets w (groupProfilesByNetworkType w) []")
        case (Throws e)
        with True Returns Some assms show ?thesis by (simp add: folderBody_def)
      next
        case cs: (Returns createdSheets)
        show ?thesis
        proof (cases "existingData w (cfg_startDate cfg) createdSheets")
          case True
          with \<open>clients_ok w\<close> Returns Some cs assms show ?thesis
            by (auto simp: folderBody_def)
        next
          case False
          with \<open>clients_ok w\<close> Returns Some cs assms
          have "fst (fetchAndWrite w rt gid gname profiles cfg sid createdSheets) = Returns rs"
            by (auto simp: folderBody_def split: prod.splits)
          from fetchAndWrite_results [OF this] Returns Some show ?thesis by auto
        qed
      qed
    qed
  qed
qed

lemma folderBody_empty:
  assumes "clients_ok w" and "openSpreadsheet w = Returns None"
  shows "folderBody w rt gid gname profiles cfg = (Returns [], [])"
  using assms by (simp add: folderBody_def)

lemma listed_examples:
  "listed_status ''Completed''" "listed_status ''No data''"
  "listed_status ''Already updated for this month''"
  "listed_status (''Error after '' @ t)"
  by (simp_all add: listed_status_def)

lemma status_simps:
  "status (folderResult gid gname profiles cfg sid st) = st"
  "status (errorResult w gid gname profiles m) = ''Error after '' @ elapsed w @ '' minutes: '' @ m"
  by (simp_all add: folderResult_def errorResult_def)

lemma listed_results:
  "listed_status (status (errorResult w gid gname profiles m))"
  "st \<in> {''Already updated for this month'', ''No data'', ''Completed''} \<Longrightarrow>
   listed_status (status (folderResult gid gname profiles cfg sid st))"
  by (auto simp: errorResult_def folderResult_def listed_status_def)

lemma unit_cases:
  "(\<exists>m evs. folderBody w rt gid gname profiles cfg = (Throws m, evs)
      \<and> fst (processGroupAnalytics w rt gid gname profiles cfg) = [errorResult w gid gname profiles m])
   \<or> (clients_ok w \<and> openSpreadsheet w = Returns None
      \<and> fst (processGroupAnalytics w rt gid gname profiles cfg) = [])
   \<or> (\<exists>sid st. openSpreadsheet w = Returns (Some sid)
        \<and> st \<in> {''Already updated for this month'', ''No data'', ''Completed''}
        \<and> fst (processGroupAnalytics w rt gid gname profiles cfg)
            = [folderResult gid gname profiles cfg sid st])"
proof (cases "folderBody w rt gid gname profiles cfg")
  case (Pair r evs)
  show ?thesis
  proof (cases r)
    case (Throws m)
    with Pair show ?thesis by (simp add: processGroupAnalytics_def)
  next
    case (Returns rs)
    with Pair have p: "fst (processGroupAnalytics w rt gid gname profiles cfg) = rs"
      by (simp add: processGroupAnalytics_def)
    from Returns Pair folderBody_results [of w rt gid gname profiles cfg rs evs]
    show ?thesis unfolding p by blast
  qed
qed

lemma processUnits_concat:
  "fst (processUnits uw rt cfg units)
   = concat (map (\<lambda>(g, n, ps). if ps \<noteq> []
                                then fst (processGroupAnalytics (uw g) rt g n ps cfg) else [])
              units)"
  by (induction units) (auto split: prod.splits)

lemma retry_events [simp]:
  "attempts_made [] = []" "attempts_made (Attempt n # evs) = n # attempts_made evs"
  "attempts_made (Sleep d # evs) = attempts_made evs"
  "sleeps_made [] = []" "sleeps_made (Attempt n # evs) = sleeps_made evs"
  "sleeps_made (Sleep d # evs) = d # sleeps_made evs"
  by (simp_all add: attempts_made_def sleeps_made_def)

lemma retry_all_fail:
  assumes "\<forall>n. attempt_fails (call n)"
  shows "attempt \<le> maxAttempts + 1 \<Longrightarrow>
         fst (retryLoop maxAttempts delay call attempt) = []
         \<and> attempts_made (snd (retryLoop maxAttempts delay call attempt))
             = [attempt..<maxAttempts + 1]
         \<and> sleeps_made (snd (retryLoop maxAttempts delay call attempt))
             = replicate (maxAttempts - attempt) delay"
proof (induction "maxAttempts + 1 - attempt" arbitrary: attempt)
  case 0
  then have "\<not> attempt \<le> maxAttempts" by simp
  then show ?case
    by (subst (1 2 3) retryLoop.simps) simp
next
  case (Suc k)
  then have le: "attempt \<le> maxAttempts" by simp
  from Suc have "k = maxAttempts + 1 - (attempt + 1)" "attempt + 1 \<le> maxAttempts + 1" by simp_all
  from Suc.hyps(1) [OF this] obtain evs where
    r: "retryLoop maxAttempts delay call (attempt + 1) = ([], evs)"
    and a: "attempts_made evs = [attempt + 1..<maxAttempts + 1]"
    and s: "sleeps_made evs = replicate (maxAttempts - (attempt + 1)) delay"
    by (cases "retryLoop maxAttempts delay call (attempt + 1)") auto
  from assms have f: "attempt_fails (call attempt)" by simp
  have e: "retryLoop maxAttempts delay call attempt
           = ([], Attempt attempt # (if attempt < maxAttempts then [Sleep delay] else []) @ evs)"
    using f le r
    by (subst retryLoop.simps) (auto simp: attempt_fails_def split: outcome.splits)
  have u: "[attempt..<maxAttempts + 1] = attempt # [attempt + 1..<maxAttempts + 1]"
    using le by (simp add: upt_conv_Cons)
  show ?case
  proof (cases "attempt < maxAttempts")
    case True
    then have "replicate (maxAttempts - attempt) delay
               = delay # replicate (maxAttempts - (attempt + 1)) delay"
      by (cases "maxAttempts - attempt") auto
    with True show ?thesis by (simp only: e u a s fst_conv snd_conv if_True append.simps
          retry_events simp_thms)
  next
    case False
    with le have "maxAttempts - attempt = 0" "maxAttempts - (attempt + 1) = 0" by simp_all
    with False show ?thesis by (simp only: e u a s fst_conv snd_conv if_False append.simps
          retry_events replicate.simps simp_thms)
  qed
qed


subsection \<open>A read that throws during the duplicate check\<close>

text \<open>
  C10: when a read of the duplicate check throws, \<^verbatim>\<open>existingData\<close> stays false, the unit
  makes the analytics fetch, its status is not \<^verbatim>\<open>Already updated for this month\<close>, and,
  the fetch bringing data that the grouping accepts, the rows of every platform with
  rows, a created sheet and a successful update are appended, whatever the sheets held.
\<close>

theorem C10_read_failure_fails_open:
  assumes "clients_ok w" and "openSpreadsheet w = Returns (Some sid)"
    and "createSheets w (groupProfilesByNetworkType w) [] = Returns createdSheets"
    and "fst (scanSheets w (take 7 (cfg_startDate cfg)) createdSheets) = Throws e"
  shows "\<not> existingData w (cfg_startDate cfg) createdSheets
         \<and> fetches (snd (processGroupAnalytics w rt gid gname profiles cfg)) = 1
         \<and> (\<forall>r\<in>set (fst (processGroupAnalytics w rt gid gname profiles cfg)).
               status r \<noteq> ''Already updated for this month'')
         \<and> (\<forall>dps groups. getAnalyticsData w = Returns (Some dps) \<and> dps \<noteq> []
                 \<and> groupDataPoints rt dps [] = Returns groups \<longrightarrow>
               appendedRows (snd (processGroupAnalytics w rt gid gname profiles cfg))
               = concat (map (rowsByNetwork (route rt profiles groups))
                   (filter (\<lambda>pf. \<exists>u. updateSheet w pf = Returns u)
                      (sheetsToUpdate (route rt profiles groups) createdSheets))))"
proof -
  have ne: "\<not> existingData w (cfg_startDate cfg) createdSheets"
    by (simp add: existingData_def assms(4))
  note u = unit_passed [OF assms(1-3) ne, of rt gid gname profiles]
  have f: "fetches (snd (processGroupAnalytics w rt gid gname profiles cfg)) = 1"
    by (simp add: u fetches_append fetches_reads fetchAndWrite_fetches)
  have st: "\<forall>r\<in>set (fst (processGroupAnalytics w rt gid gname profiles cfg)).
               status r \<noteq> ''Already updated for this month''"
  proof (cases "fst (fetchAndWrite w rt gid gname profiles cfg sid createdSheets)")
    case (Throws m)
    then show ?thesis by (simp add: u status_simps)
  next
    case (Returns rs)
    from fetchAndWrite_results [OF this] Returns show ?thesis
      by (auto simp: u status_simps)
  qed
  have ap: "appendedRows (snd (processGroupAnalytics w rt gid gname profiles cfg))
               = concat (map (rowsByNetwork (route rt profiles groups))
                   (filter (\<lambda>pf. \<exists>u. updateSheet w pf = Returns u)
                      (sheetsToUpdate (route rt profiles groups) createdSheets)))"
    if "getAnalyticsData w = Returns (Some dps)" "dps \<noteq> []"
      "groupDataPoints rt dps [] = Returns groups" for dps groups
    using fetchAndWrite_appended [OF that, of gid gname profiles cfg sid createdSheets]
    by (simp add: u appendedRows_append appended_reads)
  from ne f st ap show ?thesis by blast
qed

text \<open>
  The Instagram sheet is read first and the read throws; the Twitter sheet already holds
  a row of January 2024; the unit for January 2024 fetches and appends one more row.
\<close>

theorem C10_read_failure_fails_open_witness:
  "fst (scanSheets read_failure_world (take 7 (cfg_startDate sample_config))
         [''Instagram'', ''Twitter'']) = Throws ''Quota exceeded''
   \<and> getSheetValues read_failure_world ''Twitter''
       = Returns (Some [[''Date''], [''2024-01-15'']])
   \<and> monthExists [[''Date''], [''2024-01-15'']] (take 7 (cfg_startDate sample_config))
   \<and> \<not> existingData read_failure_world (cfg_startDate sample_config) [''Instagram'', ''Twitter'']
   \<and> fetches (snd (processGroupAnalytics read_failure_world sample_runtime ''g1'' ''Group''
        [sample_profile] sample_config)) = 1
   \<and> length (appendedRows (snd (processGroupAnalytics read_failure_world sample_runtime ''g1''
        ''Group'' [sample_profile] sample_config))) = 1"
proof -
  have t: "fst (scanSheets read_failure_world (take 7 (cfg_startDate sample_config))
             [''Instagram'', ''Twitter'']) = Throws ''Quota exceeded''"
    by (simp only: january_key read_failure_prelude(8))
  note c = C10_read_failure_fails_open [OF read_failure_prelude(1-3) t,
      of sample_runtime "''g1''" "''Group''" "[sample_profile]"]
  from c have ne: "\<not> existingData read_failure_world (cfg_startDate sample_config)
                     [''Instagram'', ''Twitter'']"
    and f: "fetches (snd (processGroupAnalytics read_failure_world sample_runtime ''g1'' ''Group''
        [sample_profile] sample_config)) = 1"
    by blast+
  have g: "getSheetValues read_failure_world ''Twitter''
             = Returns (Some [[''Date''], [''2024-01-15'']])"
    by (rule read_failure_prelude(4))
  have m: "monthExists [[''Date''], [''2024-01-15'']] (take 7 (cfg_startDate sample_config))"
    by (simp only: january_key january_present)
  from t g m ne f read_failure_unit(3) show ?thesis by (intro conjI)
qed

subsection \<open>Retry exhaustion\<close>

lemma fetcher_all_fail:
  assumes "\<forall>n. attempt_fails (request n)"
  shows "fst (AnalyticsFetcher maxRetries delay request) = Returns (Some [])"
    and "attempts_made (snd (AnalyticsFetcher maxRetries delay request)) = [1..<maxRetries + 1]"
    and "sleeps_made (snd (AnalyticsFetcher maxRetries delay request))
           = replicate (maxRetries - 1) delay"
  using retry_all_fail [OF assms, of 1 maxRetries delay]
  by (auto simp: AnalyticsFetcher_def split: prod.splits)

text \<open>
  The loop as the script has it for the groups: three attempts, ten seconds after the
  first and after the second, and a month without groups yields no result.
\<close>

lemma groups_retry_exhaustion:
  assumes "\<forall>n. attempt_fails (getCustomerGroups mw n)"
  shows "fst (processMonthAnalytics mw rt monthRange monthName) = []"
    and "attempts_made (snd (retryLoop 3 10000 (getCustomerGroups mw) 1)) = [1, 2, 3]"
    and "sleeps_made (snd (retryLoop 3 10000 (getCustomerGroups mw) 1)) = [10000, 10000]"
proof -
  note r = retry_all_fail [OF assms, of 1 3 10000]
  from r show "fst (processMonthAnalytics mw rt monthRange monthName) = []"
    by (auto simp: processMonthAnalytics_def split: prod.splits)
  have "[1..<3 + 1] = [1, 2, 3::nat]" by (simp add: upt_conv_Cons)
  with r show "attempts_made (snd (retryLoop 3 10000 (getCustomerGroups mw) 1)) = [1, 2, 3]"
    by simp
  have "replicate (3 - 1) (10000::nat) = [10000, 10000]" by (simp add: numeral_2_eq_2)
  with r show "sleeps_made (snd (retryLoop 3 10000 (getCustomerGroups mw) 1)) = [10000, 10000]"
    by simp
qed

text \<open>
  C8: when every attempt of the fetcher fails, it returns the empty result after the
  attempts 1 to \<open>maxRetries\<close>, with the delay between consecutive attempts, and raises
  nothing; a unit that reaches the fetch and receives this result yields the single
  status \<^verbatim>\<open>No data\<close>; and the loop over the groups goes on with the units that follow.
\<close>

theorem C8_retry_exhaustion_no_data:
  assumes "\<forall>n. attempt_fails (request n)"
    and "clients_ok w" and "openSpreadsheet w = Returns (Some sid)"
    and "createSheets w (groupProfilesByNetworkType w) [] = Returns createdSheets"
    and "\<not> existingData w (cfg_startDate cfg) createdSheets"
    and "getAnalyticsData w = fst (AnalyticsFetcher maxRetries delay request)"
  shows "fst (AnalyticsFetcher maxRetries delay request) = Returns (Some [])
         \<and> attempts_made (snd (AnalyticsFetcher maxRetries delay request)) = [1..<maxRetries + 1]
         \<and> sleeps_made (snd (AnalyticsFetcher maxRetries delay request))
             = replicate (maxRetries - 1) delay
         \<and> map status (fst (processGroupAnalytics w rt gid gname profiles cfg)) = [''No data'']
         \<and> fst (processUnits uw rt cfg ((gid, gname, profiles) # rest))
             = (if profiles \<noteq> [] then fst (processGroupAnalytics (uw gid) rt gid gname profiles cfg)
                else [])
               @ fst (processUnits uw rt cfg rest)"
proof -
  note f = fetcher_all_fail [OF assms(1), of maxRetries delay]
  have g: "getAnalyticsData w = Returns (Some [])"
    by (simp only: assms(6) f(1))
  note u = unit_passed [OF assms(2-5), of rt gid gname profiles]
  have "fst (fetchAndWrite w rt gid gname profiles cfg sid createdSheets)
        = Returns [folderResult gid gname profiles cfg sid ''No data'']"
    by (simp add: fetchAndWrite_def g)
  then have s: "map status (fst (processGroupAnalytics w rt gid gname profiles cfg)) = [''No data'']"
    by (simp add: u status_simps)
  have p: "fst (processUnits uw rt cfg ((gid, gname, profiles) # rest))
             = (if profiles \<noteq> [] then fst (processGroupAnalytics (uw gid) rt gid gname profiles cfg)
                else [])
               @ fst (processUnits uw rt cfg rest)"
    by (simp split: prod.splits)
  from f s p show ?thesis by blast
qed

lemma failing_request_fails: "\<forall>n. attempt_fails (failing_request n)"
  by (simp add: attempt_fails_def failing_request_def)

lemma unsynced_prelude:
  "clients_ok (unsynced_world fetched)"
  "openSpreadsheet (unsynced_world fetched) = Returns (Some ''sheet-1'')"
  "createSheets (unsynced_world fetched) (groupProfilesByNetworkType (unsynced_world fetched)) []
     = Returns [''Twitter'']"
  "\<not> existingData (unsynced_world fetched) (cfg_startDate sample_config) [''Twitter'']"
  "getAnalyticsData (unsynced_world fetched) = fetched"
  by (simp_all add: unsynced_world_def synced_world_def openSpreadsheet_def sheetNameOf_twitter
      networkModules_def existingData_def)

theorem C8_retry_exhaustion_no_data_witness:
  "attempt_fails (failing_request 1) \<and> attempt_fails (failing_request 2)
   \<and> attempt_fails (failing_request 3)
   \<and> fst (AnalyticsFetcher 3 10000 failing_request) = Returns (Some [])
   \<and> attempts_made (snd (AnalyticsFetcher 3 10000 failing_request)) = [1, 2, 3]
   \<and> sleeps_made (snd (AnalyticsFetcher 3 10000 failing_request)) = [10000, 10000]
   \<and> map status (fst (processGroupAnalytics
        (unsynced_world (fst (AnalyticsFetcher 3 10000 failing_request))) sample_runtime
        ''g1'' ''Group'' [sample_profile] sample_config)) = [''No data'']"
proof -
  note c = C8_retry_exhaustion_no_data
      [where request = failing_request and maxRetries = 3 and delay = 10000
         and w = "unsynced_world (fst (AnalyticsFetcher 3 10000 failing_request))"
         and cfg = sample_config and rt = sample_runtime and gid = "''g1''"
         and gname = "''Group''" and profiles = "[sample_profile]",
       OF failing_request_fails unsynced_prelude]
  have a: "[1..<3 + 1] = [1, 2, 3::nat]" by (simp add: upt_conv_Cons)
  have b: "replicate (3 - 1) (10000::nat) = [10000, 10000]" by (simp add: numeral_2_eq_2)
  from c have c1: "fst (AnalyticsFetcher 3 10000 failing_request) = Returns (Some [])"
    and c2: "attempts_made (snd (AnalyticsFetcher 3 10000 failing_request)) = [1..<3 + 1]"
    and c3: "sleeps_made (snd (AnalyticsFetcher 3 10000 failing_request))
               = replicate (3 - 1) 10000"
    and c4: "map status (fst (processGroupAnalytics
        (unsynced_world (fst (AnalyticsFetcher 3 10000 failing_request))) sample_runtime
        ''g1'' ''Group'' [sample_profile] sample_config)) = [''No data'']"
    by blast+
  have f: "attempt_fails (failing_request 1)" "attempt_fails (failing_request 2)"
    "attempt_fails (failing_request 3)"
    using failing_request_fails by blast+
  from f c1 c2 [unfolded a] c3 [unfolded b] c4 show ?thesis by (intro conjI)
qed


subsection \<open>Statuses of the units and the run\<close>

text \<open>
  The summary of \<^verbatim>\<open>main\<close> is left by a \<^verbatim>\<open>TypeError\<close> at the first result, so a run with
  any result ends in the \<^verbatim>\<open>catch\<close> of \<^verbatim>\<open>main\<close> and prints no summary by month.
\<close>

lemma summary_throws:
  "rs \<noteq> [] \<Longrightarrow>
   resultsByMonth rs [] = Throws ''Cannot read properties of undefined (reading substring)''"
  by (cases rs) (simp_all add: result_startDate_def)

lemma main_without_summary:
  "allResults mw rt monthName currentDate \<noteq> [] \<Longrightarrow>
   main mw rt monthName currentDate
   = MainCaught ''Cannot read properties of undefined (reading substring)''"
  by (simp add: main_def summary_throws)

lemma no_spreadsheet_prelude:
  "clients_ok no_spreadsheet_world" "openSpreadsheet no_spreadsheet_world = Returns None"
  "createSpreadsheet no_spreadsheet_world = Returns None"
  by (simp_all add: no_spreadsheet_world_def synced_world_def openSpreadsheet_def)

text \<open>
  C9, as stated, at a group for which no spreadsheet exists and \<^verbatim>\<open>createSpreadsheet\<close>
  returns no identifier: the unit yields no result, hence no status at all.
\<close>

theorem C9_no_status_counterexample:
  "createSpreadsheet no_spreadsheet_world = Returns None
   \<and> fst (processGroupAnalytics no_spreadsheet_world sample_runtime ''g1'' ''Group''
        [sample_profile] sample_config) = []"
  by (simp add: processGroupAnalytics_def folderBody_empty [OF no_spreadsheet_prelude(1,2)]
      no_spreadsheet_prelude(3))

text \<open>
  C9, amended: a unit yields at most one result; the status of a result is
  \<^verbatim>\<open>Completed\<close>, \<^verbatim>\<open>No data\<close>, \<^verbatim>\<open>Already updated for this month\<close> or
  \<^verbatim>\<open>Error after <minutes> minutes: <message>\<close>; the unit yields none exactly when no
  spreadsheet is found and \<^verbatim>\<open>createSpreadsheet\<close> returns no identifier; an error thrown
  inside the unit becomes its error result; and the results of a month are the results
  of its units with profiles, in order, whatever each unit's outcome.
\<close>

theorem C9_unit_statuses:
  "length (fst (processGroupAnalytics w rt gid gname profiles cfg)) \<le> 1
   \<and> (\<forall>r\<in>set (fst (processGroupAnalytics w rt gid gname profiles cfg)).
         listed_status (status r))
   \<and> (fst (processGroupAnalytics w rt gid gname profiles cfg) = []
        \<longleftrightarrow> clients_ok w \<and> openSpreadsheet w = Returns None)
   \<and> (\<forall>m evs. folderBody w rt gid gname profiles cfg = (Throws m, evs) \<longrightarrow>
         map status (fst (processGroupAnalytics w rt gid gname profiles cfg))
         = [''Error after '' @ elapsed w @ '' minutes: '' @ m])
   \<and> fst (processUnits uw rt cfg units)
       = concat (map (\<lambda>(g, n, ps). if ps \<noteq> []
                                     then fst (processGroupAnalytics (uw g) rt g n ps cfg) else [])
                  units)"
proof -
  let ?U = "fst (processGroupAnalytics w rt gid gname profiles cfg)"
  have len: "length ?U \<le> 1"
    using unit_cases [of w rt gid gname profiles cfg] by auto
  have listed: "\<forall>r\<in>set ?U. listed_status (status r)"
    using unit_cases [of w rt gid gname profiles cfg] listed_results
    by (elim disjE exE conjE) simp_all
  have empty: "?U = [] \<longleftrightarrow> clients_ok w \<and> openSpreadsheet w = Returns None"
    using unit_cases [of w rt gid gname profiles cfg]
    by (auto simp: processGroupAnalytics_def folderBody_empty)
  have err: "\<forall>m evs. folderBody w rt gid gname profiles cfg = (Throws m, evs) \<longrightarrow>
         map status ?U = [''Error after '' @ elapsed w @ '' minutes: '' @ m]"
    by (simp add: processGroupAnalytics_def status_simps)
  from len listed empty err processUnits_concat [of uw rt cfg units] show ?thesis
    by blast
qed

theorem C9_unit_statuses_witness:
  "folderBody failing_world sample_runtime ''g1'' ''Group'' [sample_profile] sample_config
     = (Throws ''Quota exceeded'', [])
   \<and> map status (fst (processGroupAnalytics failing_world sample_runtime ''g1'' ''Group''
        [sample_profile] sample_config)) = [''Error after 0.1 minutes: Quota exceeded'']
   \<and> listed_status ''Error after 0.1 minutes: Quota exceeded''"
proof -
  have b: "folderBody failing_world sample_runtime ''g1'' ''Group'' [sample_profile] sample_config
           = (Throws ''Quota exceeded'', [])"
    by (simp add: folderBody_def failing_world_def synced_world_def openSpreadsheet_def)
  have e: "elapsed failing_world = ''0.1''"
    by (simp add: failing_world_def synced_world_def)
  note c = C9_unit_statuses [of failing_world sample_runtime "''g1''" "''Group''"
      "[sample_profile]" sample_config]
  from c b have s: "map status (fst (processGroupAnalytics failing_world sample_runtime ''g1''
        ''Group'' [sample_profile] sample_config))
      = [''Error after '' @ elapsed failing_world @ '' minutes: '' @ ''Quota exceeded'']"
    by blast
  from c have "\<forall>r\<in>set (fst (processGroupAnalytics failing_world sample_runtime ''g1''
        ''Group'' [sample_profile] sample_config)). listed_status (status r)"
    by blast
  then have "\<forall>x\<in>set (map status (fst (processGroupAnalytics failing_world sample_runtime ''g1''
        ''Group'' [sample_profile] sample_config))). listed_status x"
    by simp
  with s have l: "listed_status (''Error after '' @ elapsed failing_world @ '' minutes: ''
      @ ''Quota exceeded'')"
    by simp
  from b s l show ?thesis by (simp add: e)
qed

subsection \<open>One row per key\<close>

text \<open>
  A batch with a data point whose reporting period is no date: line 998 throws inside
  the grouping loop, the unit ends with an error result and appends no row, although the
  other data point of the batch resolves and normalizes.
\<close>

lemma unparseable_period_groups:
  "groupDataPoints sample_runtime [twitter_example_datapoint, bad_period_datapoint] []
     = Throws ''Invalid time value''"
  by (simp add: sample_keyed(1) sample_bad_period_keyed has_key_def object_prototype_names_def)

lemma unparseable_period_fails_unit:
  "map status (fst (processGroupAnalytics
       (unsynced_world (Returns (Some [twitter_example_datapoint, bad_period_datapoint])))
       sample_runtime ''g1'' ''Group'' [sample_profile] sample_config))
     = [''Error after 0.1 minutes: Invalid time value'']
   \<and> appendedRows (snd (processGroupAnalytics
       (unsynced_world (Returns (Some [twitter_example_datapoint, bad_period_datapoint])))
       sample_runtime ''g1'' ''Group'' [sample_profile] sample_config)) = []
   \<and> route_entry sample_runtime [sample_profile] sample_entry \<noteq> None"
proof -
  let ?w = "unsynced_world (Returns (Some [twitter_example_datapoint, bad_period_datapoint]))"
  have fw: "fetchAndWrite ?w sample_runtime ''g1'' ''Group'' [sample_profile] sample_config
              ''sheet-1'' [''Twitter'']
            = (Throws ''Invalid time value'', [FetchAnalytics])"
    by (simp add: fetchAndWrite_def unsynced_prelude(5) unparseable_period_groups
        del: groupDataPoints.simps)
  have e: "elapsed ?w = ''0.1''"
    by (simp add: unsynced_world_def synced_world_def)
  note u = unit_passed [OF unsynced_prelude(1-4), of "Returns (Some [twitter_example_datapoint, bad_period_datapoint])"
      sample_runtime "''g1''" "''Group''" "[sample_profile]"]
  have s: "map status (fst (processGroupAnalytics ?w sample_runtime ''g1'' ''Group''
             [sample_profile] sample_config))
           = [''Error after 0.1 minutes: Invalid time value'']"
    by (simp add: u fw errorResult_def e)
  have a: "appendedRows (snd (processGroupAnalytics ?w sample_runtime ''g1'' ''Group''
             [sample_profile] sample_config)) = []"
  proof -
    have "appendedRows [FetchAnalytics] = []" by (simp add: appendedRows_def)
    then show ?thesis
      by (simp add: u fw appendedRows_append appended_reads del: scanSheets.simps)
  qed
  from s a sample_route_entry show ?thesis by (intro conjI)
qed

text \<open>
  C7, as stated, at a batch in which one profile reports one day under two spellings of
  its identifier, the number 123 and the string \<^verbatim>\<open>"0123"\<close>: the keys differ, both data
  points are kept, both resolve to the profile 123, and the Twitter sheet receives two
  rows for one profile and one date.
\<close>

theorem C7_two_rows_per_pair_counterexample:
  "groupDataPoints sample_runtime [twitter_example_datapoint, padded_id_datapoint] []
     = Returns [(''123_2024-01-15'', sample_entry), (''0123_2024-01-15'', padded_entry)]
   \<and> findProfile [sample_profile] (profileId sample_entry) = Some sample_profile
   \<and> findProfile [sample_profile] (profileId padded_entry) = Some sample_profile
   \<and> date sample_entry = date padded_entry
   \<and> length (rowsByNetwork
        (route sample_runtime [sample_profile]
           [(''123_2024-01-15'', sample_entry), (''0123_2024-01-15'', padded_entry)])
        Twitter) = 2"
proof -
  have g: "groupDataPoints sample_runtime [twitter_example_datapoint, padded_id_datapoint] []
     = Returns [(''123_2024-01-15'', sample_entry), (''0123_2024-01-15'', padded_entry)]"
    by (simp add: sample_keyed(1) sample_padded_keyed has_key_def object_prototype_names_def)
  have p: "parseInt (JStr ''0123'') = Some 123"
    by (simp add: parseInt_def js_string_def parseInt_string_def is_space_def
        unsigned_value_def digits_value_def digit_of_def)
  have f1: "findProfile [sample_profile] (profileId sample_entry) = Some sample_profile"
    using findProfile_parsed [OF parseInt_number(1), of "[sample_profile]" 123]
    by (simp add: sample_entry_def sample_profile_def)
  have f2: "findProfile [sample_profile] (profileId padded_entry) = Some sample_profile"
    using findProfile_parsed [OF p, of "[sample_profile]"]
    by (simp add: padded_entry_def sample_profile_def)
  have d: "date sample_entry = date padded_entry"
    by (simp add: sample_entry_def padded_entry_def)
  obtain r1 where r1: "route_entry sample_runtime [sample_profile] sample_entry = Some r1"
    using sample_route_entry by auto
  obtain r2 where r2: "route_entry sample_runtime [sample_profile] padded_entry = Some r2"
    using padded_route_entry by auto
  have t: "dispatch (network_type sample_profile) = Some Twitter"
    by (simp add: sample_profile_def dispatch_def formatter_of_def networkType_def
        networkTypeMapping_def networkModules_def)
  from r1 f1 t have p1: "fst r1 = Twitter"
    by (auto simp: route_entry_def split: option.splits)
  from r2 f2 t have p2: "fst r2 = Twitter"
    by (auto simp: route_entry_def split: option.splits)
  have "route sample_runtime [sample_profile]
           [(''123_2024-01-15'', sample_entry), (''0123_2024-01-15'', padded_entry)] = [r1, r2]"
    by (simp add: route_def List.map_filter_simps r1 r2)
  moreover obtain row1 where "r1 = (Twitter, row1)" using p1 by (cases r1) auto
  moreover obtain row2 where "r2 = (Twitter, row2)" using p2 by (cases r2) auto
  ultimately have l: "length (rowsByNetwork
        (route sample_runtime [sample_profile]
           [(''123_2024-01-15'', sample_entry), (''0123_2024-01-15'', padded_entry)])
        Twitter) = 2"
    by (simp add: rowsByNetwork_def)
  from g f1 f2 d l show ?thesis by (intro conjI)
qed

text \<open>
  C7, amended: for every batch in which no data point that carries an identifier and a
  reporting period has a period that is no date, the grouping loop completes, and
  (1) the keys of its groups are pairwise distinct, a key being the text of the
  identifier, an underscore and the day; (2) the data point kept under a key is the
  first one of the batch, in arrival order, that has this key, later ones being
  discarded; (3) every data point that reaches a key has its key among the groups;
  (4) the rows pushed are those of the key-labelled pass, whose keys are exactly the
  keys of the groups that resolve a profile, have a formatter and normalize, each once
  and in order, so no key has two rows and each key that normalizes has one; (5) two
  groups of the same day whose identifiers read as the same number, as they do when they
  resolve to one profile, have the same key and are one group when both identifiers are
  spelled canonically (a safe integer, as a number or as the string of its digits).
\<close>

theorem C7_first_wins_one_row_per_key:
  assumes "\<forall>dp\<in>set dps. \<forall>x. keyed rt dp \<noteq> Throws x"
  shows "\<exists>groups. groupDataPoints rt dps [] = Returns groups
         \<and> distinct (map fst groups)
         \<and> (\<forall>(k, e)\<in>set groups.
               k = js_string (profileId e) @ ''_'' @ date e
               \<and> find (\<lambda>dp. key_of rt dp = Some k) dps = Some (dataPoint e))
         \<and> (\<forall>dp\<in>set dps. \<forall>k. key_of rt dp = Some k \<and> k \<notin> set object_prototype_names
               \<longrightarrow> k \<in> fst ` set groups)
         \<and> route rt profiles groups = map snd (route_keyed rt profiles groups)
         \<and> map fst (route_keyed rt profiles groups)
             = map fst (filter (\<lambda>(k, e). route_entry rt profiles e \<noteq> None) groups)
         \<and> distinct (map fst (route_keyed rt profiles groups))
         \<and> (\<forall>(k1, e1)\<in>set groups. \<forall>(k2, e2)\<in>set groups.
               canonical_id (profileId e1) \<and> canonical_id (profileId e2)
               \<and> parseInt (profileId e1) = parseInt (profileId e2) \<and> date e1 = date e2
               \<longrightarrow> k1 = k2 \<and> e1 = e2)"
proof -
  from group_returns [OF assms, of "[]"]
  obtain groups where g: "groupDataPoints rt dps [] = Returns groups" by blast
  have d: "distinct (map fst groups)"
    using group_distinct [OF g] by simp
  have kf: "k = js_string (profileId e) @ ''_'' @ date e" if "(k, e) \<in> set groups" for k e
    using group_key_form [OF g that] by simp
  have f: "\<forall>(k, e)\<in>set groups.
               k = js_string (profileId e) @ ''_'' @ date e
               \<and> find (\<lambda>dp. key_of rt dp = Some k) dps = Some (dataPoint e)"
    using group_first_wins [OF g] kf by auto
  have c: "\<forall>dp\<in>set dps. \<forall>k. key_of rt dp = Some k \<and> k \<notin> set object_prototype_names
               \<longrightarrow> k \<in> fst ` set groups"
    using group_complete [OF g] by blast
  have "distinct (map fst (filter (\<lambda>(k, e). route_entry rt profiles e \<noteq> None) groups))"
    using d by (rule distinct_map_filter)
  then have dk: "distinct (map fst (route_keyed rt profiles groups))"
    by (simp only: route_keyed_keys)
  have same: "k1 = k2 \<and> e1 = e2"
    if m: "(k1, e1) \<in> set groups" "(k2, e2) \<in> set groups"
      and cn: "canonical_id (profileId e1)" "canonical_id (profileId e2)"
      and p: "parseInt (profileId e1) = parseInt (profileId e2)" and dt: "date e1 = date e2"
    for k1 e1 k2 e2
  proof -
    from canonical_same_text [OF cn p] kf [OF m(1)] kf [OF m(2)] dt have k: "k1 = k2" by simp
    from d m k have "e1 = e2" by (metis eq_key_imp_eq_value)
    with k show ?thesis by simp
  qed
  then have s: "\<forall>(k1, e1)\<in>set groups. \<forall>(k2, e2)\<in>set groups.
               canonical_id (profileId e1) \<and> canonical_id (profileId e2)
               \<and> parseInt (profileId e1) = parseInt (profileId e2) \<and> date e1 = date e2
               \<longrightarrow> k1 = k2 \<and> e1 = e2"
    by blast
  note rk = route_keyed_rows [of rt profiles groups] and kk = route_keyed_keys [of rt profiles groups]
  show ?thesis
    by (rule exI [of _ groups]) (intro conjI g d f c rk kk dk s)
qed

theorem C7_first_wins_one_row_per_key_witness:
  "keyed sample_runtime twitter_example_datapoint
     = Returns (Some (''123_2024-01-15'', sample_entry))
   \<and> keyed sample_runtime empty_metrics_datapoint
     = Returns (Some (''123_2024-01-15'',
         \<lparr>profileId = JNum 123, date = ''2024-01-15'', dataPoint = empty_metrics_datapoint\<rparr>))
   \<and> groupDataPoints sample_runtime [twitter_example_datapoint, empty_metrics_datapoint] []
     = Returns [(''123_2024-01-15'', sample_entry)]
   \<and> find (\<lambda>dp. key_of sample_runtime dp = Some ''123_2024-01-15'')
        [twitter_example_datapoint, empty_metrics_datapoint] = Some twitter_example_datapoint
   \<and> length (route sample_runtime [sample_profile] [(''123_2024-01-15'', sample_entry)]) = 1"
proof -
  have h: "\<forall>dp\<in>set [twitter_example_datapoint, empty_metrics_datapoint].
             \<forall>x. keyed sample_runtime dp \<noteq> Throws x"
    by (simp add: sample_keyed)
  from C7_first_wins_one_row_per_key [OF h, of "[sample_profile]"]
  obtain groups where
    g: "groupDataPoints sample_runtime [twitter_example_datapoint, empty_metrics_datapoint] []
          = Returns groups"
    and f: "\<forall>(k, e)\<in>set groups.
               k = js_string (profileId e) @ ''_'' @ date e
               \<and> find (\<lambda>dp. key_of sample_runtime dp = Some k)
                   [twitter_example_datapoint, empty_metrics_datapoint] = Some (dataPoint e)"
    and r: "route sample_runtime [sample_profile] groups
              = map snd (route_keyed sample_runtime [sample_profile] groups)"
    and k: "map fst (route_keyed sample_runtime [sample_profile] groups)
              = map fst (filter (\<lambda>(k, e). route_entry sample_runtime [sample_profile] e \<noteq> None)
                  groups)"
    by blast
  from g have gs: "groups = [(''123_2024-01-15'', sample_entry)]"
    by (simp only: sample_groups outcome.inject)
  from f have a: "find (\<lambda>dp. key_of sample_runtime dp = Some ''123_2024-01-15'')
        [twitter_example_datapoint, empty_metrics_datapoint] = Some twitter_example_datapoint"
    by (simp add: gs sample_entry_def)
  have "length (route sample_runtime [sample_profile] [(''123_2024-01-15'', sample_entry)])
        = length (map fst (route_keyed sample_runtime [sample_profile]
            [(''123_2024-01-15'', sample_entry)]))"
    using r by (simp add: gs)
  also have "\<dots> = 1"
    using k sample_route_entry by (simp add: gs)
  finally have l: "length (route sample_runtime [sample_profile]
      [(''123_2024-01-15'', sample_entry)]) = 1" .
  from sample_keyed a l sample_groups show ?thesis by (intro conjI)
qed

end
